theory Spec2Isabelle
  imports Complex_Main
begin

section \<open>The data of \<open>statistical_analysis.py\<close>\<close>

text \<open>
  \<open>analyze_df\<close> works on a pandas data frame. A frame is modelled by the list of its column
  labels and the list of its rows. A row carries the six columns of the input file
  (\<open>Unnamed: 0\<close>, \<open>device\<close>, \<open>scan\<close>, \<open>procName\<close>, \<open>scan_proc_count\<close>, \<open>timestamp\<close>) and the
  two columns that \<open>analyze_df\<close> assigns (\<open>total_proc_count\<close>, \<open>difference_count\<close>). Whether a
  column is present is decided by \<open>columns\<close> alone: a label that is not listed there is a
  \<open>KeyError\<close> for the code, whatever value the row field holds.

  Cells are typed as the docstring documents them. \<open>procName\<close> is optional because
  \<open>transform('count')\<close> counts the non-missing cells of a group; \<open>device\<close> and \<open>scan\<close> are
  never missing, and the scan token is only ever compared for equality.
  \<open>scan_proc_count\<close> is an int64 column: its cells are integers, and the subtraction of
  line 32 wraps around as int64 arithmetic does. The floating point columns (\<open>mean\<close>,
  \<open>std\<close>, scores) are modelled by the exact real values, with \<open>None\<close> for NaN; what
  float64 rounds is not modelled. A frame has no cells beyond these eight columns: a frame
  with further data columns, which \<open>drop_duplicates\<close> at line 36 would compare as well,
  is outside the model.
\<close>

record row =
  unnamed_0 :: int
  device :: string
  scan :: int
  procName :: "string option"
  scan_proc_count :: int
  timestamp :: string
  total_proc_count :: int
  difference_count :: int

record frame =
  columns :: "string list"
  rows :: "row list"

text \<open>
  The exceptions that can leave \<open>analyze_df\<close>: a \<open>KeyError\<close> of pandas with the labels it
  names, the \<open>ValueError\<close> of assigning a column of the wrong length, and whatever the
  isolation forest raises.
\<close>

datatype 'e error = KeyError "string list" | ValueError | EnsembleError 'e

text \<open>One row of \<open>filtered_df\<close> at line 108, and one at line 116 after scoring.\<close>

record feature_row =
  fdevice :: string
  mean_difference_count :: real
  std_difference_count :: "real option"

record scored_row = feature_row +
  anomaly :: int
  anomaly_score :: real
  score_normalized :: real

text \<open>
  \<open>IsolationForest\<close> is scikit-learn's, not this repository's. The pipeline is therefore
  parametrised by the two methods it calls. Each receives the constructor arguments
  (\<open>contamination\<close>, \<open>random_state\<close>) and the feature matrix, and either raises or returns
  one value per row (labels are \<open>1\<close> and \<open>-1\<close>).
\<close>

record 'e isolation_forest =
  fit_predict :: "real \<Rightarrow> nat \<Rightarrow> (real \<times> real option) list \<Rightarrow> 'e + int list"
  decision_function :: "real \<Rightarrow> nat \<Rightarrow> (real \<times> real option) list \<Rightarrow> 'e + real list"

section \<open>pandas operations used by the code\<close>

text \<open>\<open>drop_duplicates()\<close> keeps the first occurrence of every row, in order.\<close>

fun drop_duplicates :: "'a list \<Rightarrow> 'a list" where
  "drop_duplicates [] = []"
| "drop_duplicates (x # xs) = x # drop_duplicates (filter (\<lambda>y. y \<noteq> x) xs)"

text \<open>The labels of \<open>ls\<close> that are not columns of the frame.\<close>

definition missing :: "string list \<Rightarrow> frame \<Rightarrow> string list" where
  "missing ls df = filter (\<lambda>c. c \<notin> set (columns df)) ls"

text \<open>\<open>df[c] = ...\<close> appends the label \<open>c\<close> unless the frame already has it.\<close>

definition setitem_columns :: "string \<Rightarrow> string list \<Rightarrow> string list" where
  "setitem_columns c cs = (if c \<in> set cs then cs else cs @ [c])"

text \<open>
  \<open>df.groupby(['device', 'scan'])['procName'].transform('count')\<close>: for each row, the number
  of non-missing \<open>procName\<close> cells among the rows of its (device, scan) group.
\<close>

definition group_count :: "row list \<Rightarrow> row \<Rightarrow> int" where
  "group_count rs r =
     int (length (filter (\<lambda>x. device x = device r \<and> scan x = scan r \<and> procName x \<noteq> None) rs))"

definition set_total_proc_count :: "frame \<Rightarrow> frame" where
  "set_total_proc_count df =
     \<lparr>columns = setitem_columns ''total_proc_count'' (columns df),
      rows = map (\<lambda>r. r\<lparr>total_proc_count := group_count (rows df) r\<rparr>) (rows df)\<rparr>"

text \<open>
  When \<open>groupby\<close> is given a list of keys that is as long as the frame and not all keys
  are columns, pandas takes the list itself as the group labels, one per row. For the
  two keys of line 31 that is a frame of two rows, each row a group of its own.
\<close>

definition set_total_proc_count_by_label :: "frame \<Rightarrow> frame" where
  "set_total_proc_count_by_label df =
     \<lparr>columns = setitem_columns ''total_proc_count'' (columns df),
      rows = map (\<lambda>r. r\<lparr>total_proc_count := (if procName r = None then 0 else 1)\<rparr>) (rows df)\<rparr>"

text \<open>The value of an integer result in an int64 column: it wraps around silently.\<close>

definition wrap_int64 :: "int \<Rightarrow> int" where
  "wrap_int64 x = (x + 2 ^ 63) mod 2 ^ 64 - 2 ^ 63"

definition set_difference_count :: "frame \<Rightarrow> frame" where
  "set_difference_count df =
     \<lparr>columns = setitem_columns ''difference_count'' (columns df),
      rows = map (\<lambda>r. r\<lparr>difference_count := wrap_int64 (total_proc_count r - scan_proc_count r)\<rparr>)
               (rows df)\<rparr>"

text \<open>\<open>transform('mean')\<close> and \<open>transform('std')\<close> (sample standard deviation, \<open>ddof = 1\<close>;
  NaN for a group of fewer than two values).\<close>

definition mean :: "int list \<Rightarrow> real" where
  "mean xs = real_of_int (sum_list xs) / real (length xs)"

definition std :: "int list \<Rightarrow> real option" where
  "std xs =
     (if length xs < 2 then None
      else Some (sqrt ((\<Sum>x\<leftarrow>xs. (real_of_int x - mean xs)\<^sup>2) / real (length xs - 1))))"

section \<open>The pipeline\<close>

text \<open>
  Lines 31 and 32. Both assignments write into the caller's frame, so the frame is
  returned together with the outcome. \<open>df['scan_proc_count']\<close> raises when the column is
  missing, after \<open>total_proc_count\<close> has been assigned.
\<close>

definition assign_difference_count :: "frame \<Rightarrow> frame \<times> ('e error + unit)" where
  "assign_difference_count df1 =
     (if ''scan_proc_count'' \<notin> set (columns df1)
      then (df1, Inl (KeyError [''scan_proc_count'']))
      else (set_difference_count df1, Inr ()))"

text \<open>
  \<open>groupby\<close> raises for the first grouping key that is not a column, unless the frame
  has two rows: then the key list is taken as the group labels. The selection
  \<open>['procName']\<close> raises when that column is missing.
\<close>

definition preprocessing :: "frame \<Rightarrow> frame \<times> ('e error + unit)" where
  "preprocessing df =
     (case missing [''device'', ''scan''] df of
        [] \<Rightarrow>
          if ''procName'' \<notin> set (columns df) then (df, Inl (KeyError [''procName'']))
          else assign_difference_count (set_total_proc_count df)
      | c # _ \<Rightarrow>
          if length (rows df) = 2
          then if ''procName'' \<notin> set (columns df) then (df, Inl (KeyError [''procName'']))
               else assign_difference_count (set_total_proc_count_by_label df)
          else (df, Inl (KeyError [c])))"

text \<open>
  Line 36. \<open>drop\<close> raises a \<open>KeyError\<close> naming every label that is not a column; otherwise
  the columns \<open>device\<close>, \<open>scan\<close> and \<open>difference_count\<close> remain (those of them that the frame
  has) and duplicates are dropped.
\<close>

definition data_no_proc :: "frame \<Rightarrow> 'e error + (string \<times> int \<times> int) list" where
  "data_no_proc df =
     (case missing [''Unnamed: 0'', ''procName'', ''scan_proc_count'', ''timestamp'',
                    ''total_proc_count''] df of
        [] \<Rightarrow> Inr (drop_duplicates (map (\<lambda>r. (device r, scan r, difference_count r)) (rows df)))
      | c # cs \<Rightarrow> Inl (KeyError (c # cs)))"

text \<open>Lines 38 and 39: the \<open>difference_count\<close> values of one device's group.\<close>

definition group_values :: "(string \<times> int \<times> int) list \<Rightarrow> string \<Rightarrow> int list" where
  "group_values dnp d = map (\<lambda>(_, _, x). x) (filter (\<lambda>(d', _, _). d' = d) dnp)"

definition device_features :: "(string \<times> int \<times> int) list \<Rightarrow> string \<Rightarrow> feature_row" where
  "device_features dnp d =
     \<lparr>fdevice = d,
      mean_difference_count = mean (group_values dnp d),
      std_difference_count = std (group_values dnp d)\<rparr>"

text \<open>Line 107: \<open>scan\<close> and \<open>difference_count\<close> are dropped, then duplicates.\<close>

definition filtered_df :: "(string \<times> int \<times> int) list \<Rightarrow> feature_row list" where
  "filtered_df dnp = drop_duplicates (map (\<lambda>(d, _, _). device_features dnp d) dnp)"

text \<open>Line 108: the matrix handed to the forest.\<close>

definition features :: "feature_row list \<Rightarrow> (real \<times> real option) list" where
  "features fdf = map (\<lambda>r. (mean_difference_count r, std_difference_count r)) fdf"

text \<open>Least and greatest element of a non-empty list of scores.\<close>

definition data_min :: "real list \<Rightarrow> real" where
  "data_min xs = fold min (tl xs) (hd xs)"

definition data_max :: "real list \<Rightarrow> real" where
  "data_max xs = fold max (tl xs) (hd xs)"

text \<open>
  Modelled from the spec: \<open>MinMaxScaler\<close> is scikit-learn's and not part of the source; the
  Score Normalizer of the specification gives its formula,
  \<open>(x - min) / (max - min)\<close>, and \<open>0\<close> for every value when the range is zero.
\<close>

definition min_max_scaler :: "real list \<Rightarrow> real list" where
  "min_max_scaler xs =
     (if xs = [] then []
      else if data_max xs = data_min xs then map (\<lambda>_. 0) xs
      else map (\<lambda>x. (x - data_min xs) / (data_max xs - data_min xs)) xs)"

text \<open>Line 116: the scaler is applied to the negated scores.\<close>

definition normalize_scores :: "real list \<Rightarrow> real list" where
  "normalize_scores scores = min_max_scaler (map uminus scores)"

definition random_state :: nat where
  "random_state = 42"

text \<open>
  Lines 109 to 116. Assigning a column whose length differs from the frame's is a
  \<open>ValueError\<close> of pandas.
\<close>

definition scored_df ::
  "'e isolation_forest \<Rightarrow> real \<Rightarrow> feature_row list \<Rightarrow> 'e error + scored_row list" where
  "scored_df iso_forest anomaly_percentage fdf =
     (case fit_predict iso_forest anomaly_percentage random_state (features fdf) of
        Inl e \<Rightarrow> Inl (EnsembleError e)
      | Inr labels \<Rightarrow>
          if length labels \<noteq> length fdf then Inl ValueError
          else
            (case decision_function iso_forest anomaly_percentage random_state (features fdf) of
               Inl e \<Rightarrow> Inl (EnsembleError e)
             | Inr scores \<Rightarrow>
                 if length scores \<noteq> length fdf then Inl ValueError
                 else Inr (map (\<lambda>(r, l, s, n).
                        \<lparr>fdevice = fdevice r,
                         mean_difference_count = mean_difference_count r,
                         std_difference_count = std_difference_count r,
                         anomaly = l, anomaly_score = s, score_normalized = n\<rparr>)
                      (zip fdf (zip labels (zip scores (normalize_scores scores)))))))"

text \<open>Line 126.\<close>

definition anomalous_devices :: "scored_row list \<Rightarrow> string set" where
  "anomalous_devices tbl = set (map fdevice (filter (\<lambda>r. anomaly r = - 1) tbl))"

text \<open>
  The local \<open>filtered_df\<close> when line 108 is reached, the scored table when line 126 is
  reached, and \<open>analyze_df\<close> itself for \<open>create_plots = False\<close> (\<open>verbose\<close> only prints).
  The result pairs the caller's frame after the call with the returned set or the
  exception. A frame that got past line 31 without a \<open>device\<close> column fails at
  \<open>groupby('device')\<close> in line 38, one without a \<open>scan\<close> column at the \<open>drop\<close> of line 107.
\<close>

definition feature_table :: "frame \<Rightarrow> 'e error + feature_row list" where
  "feature_table df =
     (case preprocessing df of
        (df', Inl e) \<Rightarrow> Inl e
      | (df', Inr _) \<Rightarrow>
          (case data_no_proc df' of
             Inl e \<Rightarrow> Inl e
           | Inr dnp \<Rightarrow>
               if ''device'' \<notin> set (columns df') then Inl (KeyError [''device''])
               else if ''scan'' \<notin> set (columns df') then Inl (KeyError [''scan''])
               else Inr (filtered_df dnp)))"

definition scored_table :: "'e isolation_forest \<Rightarrow> real \<Rightarrow> frame \<Rightarrow> 'e error + scored_row list" where
  "scored_table iso_forest anomaly_percentage df =
     (case feature_table df of
        Inl e \<Rightarrow> Inl e
      | Inr fdf \<Rightarrow> scored_df iso_forest anomaly_percentage fdf)"

definition analyze_df ::
  "'e isolation_forest \<Rightarrow> real \<Rightarrow> frame \<Rightarrow> frame \<times> ('e error + string set)" where
  "analyze_df iso_forest anomaly_percentage df =
     (fst (preprocessing df :: frame \<times> ('e error + unit)),
      case scored_table iso_forest anomaly_percentage df of
        Inl e \<Rightarrow> Inl e
      | Inr tbl \<Rightarrow> Inr (anomalous_devices tbl))"

text \<open>
  The rows of \<open>data_no_proc\<close> after line 36 and of \<open>filtered_df\<close> after line 107, written
  in terms of the rows of the input frame (for a frame that has every column the code
  asks for).
\<close>

definition scan_summaries :: "row list \<Rightarrow> (string \<times> int \<times> int) list" where
  "scan_summaries rs =
     drop_duplicates
       (map (\<lambda>r. (device r, scan r, wrap_int64 (group_count rs r - scan_proc_count r))) rs)"

definition feature_rows :: "frame \<Rightarrow> feature_row list" where
  "feature_rows df = filtered_df (scan_summaries (rows df))"

section \<open>The Aggregator in the words of the specification\<close>

text \<open>
  The Scan Summary and the Device Feature Vector as the specification describes them,
  to be compared with what the code computes. The observed count is the number of rows
  of the group of a device and scan, the reported count is taken from the first row of
  the group, and there is one discrepancy per device and scan, an integer without bound.
\<close>

definition observed_proc_count :: "row list \<Rightarrow> string \<Rightarrow> int \<Rightarrow> int" where
  "observed_proc_count rs d s =
     int (length (filter (\<lambda>r. device r = d \<and> scan r = s) rs))"

definition reported_proc_count :: "row list \<Rightarrow> string \<Rightarrow> int \<Rightarrow> int" where
  "reported_proc_count rs d s =
     (case filter (\<lambda>r. device r = d \<and> scan r = s) rs of
        [] \<Rightarrow> 0
      | r # _ \<Rightarrow> scan_proc_count r)"

definition discrepancy :: "row list \<Rightarrow> string \<Rightarrow> int \<Rightarrow> int" where
  "discrepancy rs d s = observed_proc_count rs d s - reported_proc_count rs d s"

definition device_ids :: "row list \<Rightarrow> string list" where
  "device_ids rs = drop_duplicates (map device rs)"

definition device_scans :: "row list \<Rightarrow> string \<Rightarrow> int list" where
  "device_scans rs d = drop_duplicates (map scan (filter (\<lambda>r. device r = d) rs))"

definition discrepancies :: "row list \<Rightarrow> string \<Rightarrow> int list" where
  "discrepancies rs d = map (discrepancy rs d) (device_scans rs d)"

definition arithmetic_mean :: "real list \<Rightarrow> real" where
  "arithmetic_mean xs = sum_list xs / real (length xs)"

definition sample_std :: "real list \<Rightarrow> real option" where
  "sample_std xs =
     (if length xs < 2 then None
      else Some (sqrt ((\<Sum>x\<leftarrow>xs. (x - arithmetic_mean xs)\<^sup>2) / (real (length xs) - 1))))"

definition device_feature_vector :: "row list \<Rightarrow> string \<Rightarrow> feature_row" where
  "device_feature_vector rs d =
     \<lparr>fdevice = d,
      mean_difference_count = arithmetic_mean (map real_of_int (discrepancies rs d)),
      std_difference_count = sample_std (map real_of_int (discrepancies rs d))\<rparr>"

text \<open>The rows of one device and scan all report the same process count.\<close>

definition reported_count_constant :: "row list \<Rightarrow> bool" where
  "reported_count_constant rs =
     (\<forall>r\<in>set rs. \<forall>r'\<in>set rs.
        device r = device r' \<and> scan r = scan r' \<longrightarrow> scan_proc_count r = scan_proc_count r')"

text \<open>Every row names a process.\<close>

definition every_row_named :: "row list \<Rightarrow> bool" where
  "every_row_named rs = (\<forall>r\<in>set rs. procName r \<noteq> None)"

text \<open>
  The reported counts are not negative, and counts and rows are few enough for every
  integer that lines 31 to 39 form (counts, differences, their sums) to be exact in int64
  and in float64.
\<close>

definition small_counts :: "row list \<Rightarrow> bool" where
  "small_counts rs =
     (length rs < 2 ^ 21 \<and>
      (\<forall>r\<in>set rs. 0 \<le> scan_proc_count r \<and> scan_proc_count r < 2 ^ 31))"

text \<open>The feature rows that are valid: no component is missing.\<close>

definition valid_feature_rows :: "feature_row list \<Rightarrow> feature_row list" where
  "valid_feature_rows fdf = filter (\<lambda>r. std_difference_count r \<noteq> None) fdf"

text \<open>Device \<open>d\<close> occurs, and all its rows belong to one scan with one reported count.\<close>

definition single_scan_device :: "row list \<Rightarrow> string \<Rightarrow> bool" where
  "single_scan_device rs d =
     (d \<in> device ` set rs \<and>
      (\<forall>r\<in>set rs. \<forall>r'\<in>set rs.
         device r = d \<and> device r' = d \<longrightarrow>
           scan r = scan r' \<and> scan_proc_count r = scan_proc_count r'))"

text \<open>
  The Scan Records of a frame: which of the input columns it has, and the cells of those
  columns row by row. The two columns assigned by \<open>analyze_df\<close> are not part of them.
\<close>

definition scan_records ::
  "frame \<Rightarrow> string list \<times> (int \<times> string \<times> int \<times> string option \<times> int \<times> string) list" where
  "scan_records df =
     (filter (\<lambda>c. c \<in> set (columns df))
        [''Unnamed: 0'', ''device'', ''scan'', ''procName'', ''scan_proc_count'', ''timestamp''],
      map (\<lambda>r. (unnamed_0 r, device r, scan r, procName r, scan_proc_count r, timestamp r))
        (rows df))"

section \<open>The thresholding of the Isolation Ensemble in the words of the specification\<close>

text \<open>
  Modelled from the spec: how \<open>IsolationForest\<close> turns scores into labels is scikit-learn's
  code and not part of the source. The specification says: sort all device scores,
  classify the top \<open>c\<close>-fraction (rounded) as anomalous, a lower raw score being more
  anomalous, ties broken by input order. \<open>round\<close> rounds halves up.
\<close>

definition contamination_count :: "real \<Rightarrow> nat \<Rightarrow> nat" where
  "contamination_count c n = nat (round (c * real n))"

definition anomaly_ranking :: "real list \<Rightarrow> nat list" where
  "anomaly_ranking scores = sort_key (\<lambda>i. scores ! i) [0..<length scores]"

definition threshold_labels :: "real \<Rightarrow> real list \<Rightarrow> int list" where
  "threshold_labels c scores =
     (let flagged = set (take (contamination_count c (length scores)) (anomaly_ranking scores))
      in map (\<lambda>i. if i \<in> flagged then - 1 else 1) [0..<length scores])"


section \<open>Inputs used in the examples\<close>

text \<open>The columns of a frame read from the CSV file of the example usage.\<close>

definition input_columns :: "string list" where
  "input_columns =
     [''Unnamed: 0'', ''device'', ''scan'', ''procName'', ''scan_proc_count'', ''timestamp'']"

text \<open>One input row: index, device, scan, process name, reported process count.\<close>

definition scan_record :: "int \<Rightarrow> string \<Rightarrow> int \<Rightarrow> string \<Rightarrow> int \<Rightarrow> row" where
  "scan_record i d s p n =
     \<lparr>unnamed_0 = i, device = d, scan = s, procName = Some p, scan_proc_count = n,
      timestamp = [], total_proc_count = 0, difference_count = 0\<rparr>"

text \<open>
  A stand-in for the forest in the examples: it rejects a contamination outside
  \<open>(0, 1/2]\<close> as scikit-learn's parameter check does, and flags a device when the
  magnitude of its mean discrepancy exceeds 10.
\<close>

definition toy_forest :: "string isolation_forest" where
  "toy_forest =
     \<lparr>fit_predict = (\<lambda>c _ X.
        if 0 < c \<and> c \<le> 1 / 2
        then Inr (map (\<lambda>(m, _). if \<bar>m\<bar> > 10 then - 1 else 1) X)
        else Inl ''InvalidParameterError''),
      decision_function = (\<lambda>_ _ X. Inr (map (\<lambda>(m, _). 10 - \<bar>m\<bar>) X))\<rparr>"


text \<open>Three devices: \<open>A\<close> with three scans, \<open>B\<close> with two, \<open>C\<close> with a single scan.\<close>

definition df_fleet :: frame where
  "df_fleet =
     \<lparr>columns = input_columns,
      rows = [scan_record 0 ''A'' 1 ''init'' 1, scan_record 1 ''A'' 2 ''init'' 1,
              scan_record 2 ''A'' 2 ''sshd'' 1, scan_record 3 ''A'' 2 ''cron'' 1,
              scan_record 4 ''A'' 3 ''init'' 0, scan_record 5 ''A'' 3 ''sshd'' 0,
              scan_record 6 ''A'' 3 ''cron'' 0, scan_record 7 ''A'' 3 ''bash'' 0,
              scan_record 8 ''B'' 1 ''init'' 31, scan_record 9 ''B'' 2 ''init'' 31,
              scan_record 10 ''C'' 1 ''init'' 1]\<rparr>"

text \<open>The same kind of frame without the index column \<open>Unnamed: 0\<close>.\<close>

definition df_no_index :: frame where
  "df_no_index =
     \<lparr>columns = [''device'', ''scan'', ''procName'', ''scan_proc_count'', ''timestamp''],
      rows = [scan_record 0 ''A'' 1 ''init'' 1, scan_record 1 ''A'' 2 ''init'' 1]\<rparr>"

text \<open>A single device with two scans.\<close>

definition df_one_device :: frame where
  "df_one_device =
     \<lparr>columns = input_columns,
      rows = [scan_record 0 ''A'' 1 ''init'' 1, scan_record 1 ''A'' 2 ''init'' 2]\<rparr>"

text \<open>Three devices with a single scan each.\<close>

definition df_single_scans :: frame where
  "df_single_scans =
     \<lparr>columns = input_columns,
      rows = [scan_record 0 ''A'' 1 ''init'' 1, scan_record 1 ''B'' 1 ''init'' 2,
              scan_record 2 ''C'' 1 ''init'' 3]\<rparr>"

text \<open>Two scans of one row each, whose process name is missing.\<close>

definition df_unnamed_process :: frame where
  "df_unnamed_process =
     \<lparr>columns = input_columns,
      rows = [(scan_record 0 ''A'' 1 [] 0)\<lparr>procName := None\<rparr>,
              (scan_record 1 ''A'' 2 [] 0)\<lparr>procName := None\<rparr>]\<rparr>"

text \<open>Two scans of one row each; the first reports the least int64.\<close>

definition df_least_int64 :: frame where
  "df_least_int64 =
     \<lparr>columns = input_columns,
      rows = [scan_record 0 ''A'' 1 ''init'' (- 9223372036854775808),
              scan_record 1 ''A'' 2 ''init'' 0]\<rparr>"

text \<open>One scan whose two rows report different process counts.\<close>

definition df_mixed_report :: frame where
  "df_mixed_report =
     \<lparr>columns = input_columns,
      rows = [scan_record 0 ''A'' 1 ''init'' 1, scan_record 1 ''A'' 1 ''sshd'' 2]\<rparr>"


section \<open>Dropping duplicates\<close>

lemma set_drop_duplicates [simp]: "set (drop_duplicates xs) = set xs"
  by (induction xs rule: drop_duplicates.induct) auto

lemma distinct_drop_duplicates [simp]: "distinct (drop_duplicates xs)"
  by (induction xs rule: drop_duplicates.induct) auto

lemma filter_drop_duplicates:
  "filter P (drop_duplicates xs) = drop_duplicates (filter P xs)"
proof (induction xs rule: drop_duplicates.induct)
  case 1
  then show ?case by simp
next
  case (2 x xs)
  have comm: "filter P (filter (\<lambda>y. y \<noteq> x) xs) = filter (\<lambda>y. y \<noteq> x) (filter P xs)"
    by (simp add: conj_commute)
  show ?case
  proof (cases "P x")
    case True
    with 2 comm show ?thesis by simp
  next
    case False
    then have "filter (\<lambda>y. y \<noteq> x) (filter P xs) = filter P xs"
      unfolding filter_id_conv by auto
    with False 2 comm show ?thesis by simp
  qed
qed

lemma drop_duplicates_map_inj:
  "inj_on f (set xs) \<Longrightarrow> drop_duplicates (map f xs) = map f (drop_duplicates xs)"
proof (induction xs rule: drop_duplicates.induct)
  case 1
  then show ?case by simp
next
  case (2 x xs)
  have "filter (\<lambda>y. y \<noteq> f x) (map f xs) = map f (filter (\<lambda>y. y \<noteq> x) xs)"
    using 2(2) by (auto simp: filter_map o_def inj_on_def intro!: arg_cong[where f="map f"] filter_cong)
  moreover have "inj_on f (set (filter (\<lambda>y. y \<noteq> x) xs))"
    using 2(2) by (auto simp: inj_on_def)
  ultimately show ?case using 2(1) by simp
qed

lemma drop_duplicates_map_drop_duplicates:
  "drop_duplicates (map f (drop_duplicates xs)) = drop_duplicates (map f xs)"
proof (induction xs rule: drop_duplicates.induct)
  case 1
  then show ?case by simp
next
  case (2 x xs)
  let ?ys = "filter (\<lambda>y. y \<noteq> x) xs"
  have same: "filter (\<lambda>z. z \<noteq> f x) (map f ?ys) = filter (\<lambda>z. z \<noteq> f x) (map f xs)"
    by (induction xs) auto
  have "drop_duplicates (filter (\<lambda>z. z \<noteq> f x) (map f (drop_duplicates ?ys)))
      = filter (\<lambda>z. z \<noteq> f x) (drop_duplicates (map f (drop_duplicates ?ys)))"
    by (simp only: filter_drop_duplicates)
  also have "\<dots> = filter (\<lambda>z. z \<noteq> f x) (drop_duplicates (map f ?ys))"
    by (simp only: 2)
  also have "\<dots> = drop_duplicates (filter (\<lambda>z. z \<noteq> f x) (map f ?ys))"
    by (simp only: filter_drop_duplicates)
  also have "\<dots> = drop_duplicates (filter (\<lambda>z. z \<noteq> f x) (map f xs))"
    by (simp only: same)
  finally show ?case by simp
qed

section \<open>The stages of the pipeline on a frame that has every column\<close>

lemma preprocessing_ok:
  assumes "set input_columns \<subseteq> set (columns df)"
  shows "preprocessing df = (set_difference_count (set_total_proc_count df), Inr ())"
  using assms
  by (simp add: preprocessing_def assign_difference_count_def input_columns_def missing_def
      set_total_proc_count_def setitem_columns_def)

lemma data_no_proc_ok:
  assumes "set input_columns \<subseteq> set (columns df)"
  shows "data_no_proc (set_difference_count (set_total_proc_count df)) = Inr (scan_summaries (rows df))"
  using assms
  by (simp add: data_no_proc_def input_columns_def missing_def set_total_proc_count_def
      set_difference_count_def setitem_columns_def scan_summaries_def o_def)

lemma feature_table_ok:
  assumes "set input_columns \<subseteq> set (columns df)"
  shows "feature_table df = Inr (feature_rows df)"
proof -
  from assms have "''device'' \<in> set (columns (set_difference_count (set_total_proc_count df)))"
    and "''scan'' \<in> set (columns (set_difference_count (set_total_proc_count df)))"
    by (auto simp: input_columns_def set_total_proc_count_def set_difference_count_def
        setitem_columns_def)
  then show ?thesis
    by (simp add: feature_table_def preprocessing_ok [OF assms] data_no_proc_ok [OF assms]
        feature_rows_def)
qed

lemma feature_table_KeyError:
  "(\<exists>ls. feature_table df = Inl (KeyError ls)) \<or> feature_table df = Inr (feature_rows df)"
proof (cases "''device'' \<in> set (columns df) \<and> ''scan'' \<in> set (columns df)")
  case True
  then show ?thesis
    by (auto simp: feature_table_def preprocessing_def assign_difference_count_def
        data_no_proc_def missing_def set_total_proc_count_def set_difference_count_def
        setitem_columns_def scan_summaries_def feature_rows_def o_def
        split: list.splits)
next
  case False
  then have "\<exists>ls. feature_table df = Inl (KeyError ls)"
    by (auto simp: feature_table_def preprocessing_def assign_difference_count_def
        data_no_proc_def missing_def set_total_proc_count_by_label_def set_difference_count_def
        setitem_columns_def
        split: list.splits)
  then show ?thesis ..
qed

lemma length_min_max_scaler [simp]: "length (min_max_scaler xs) = length xs"
  by (simp add: min_max_scaler_def)

lemma length_normalize_scores [simp]: "length (normalize_scores xs) = length xs"
  by (simp add: normalize_scores_def)

lemma scored_df_ok:
  assumes "fit_predict f c random_state (features fdf) = Inr labels"
    and "length labels = length fdf"
    and "decision_function f c random_state (features fdf) = Inr scores"
    and "length scores = length fdf"
  shows "\<exists>tbl. scored_df f c fdf = Inr tbl \<and> map fdevice tbl = map fdevice fdf \<and>
           map mean_difference_count tbl = map mean_difference_count fdf \<and>
           map std_difference_count tbl = map std_difference_count fdf \<and>
           map anomaly tbl = labels \<and> map anomaly_score tbl = scores \<and>
           map score_normalized tbl = normalize_scores scores"
proof -
  let ?tbl = "map (\<lambda>(r, l, s, n).
                        \<lparr>fdevice = fdevice r,
                         mean_difference_count = mean_difference_count r,
                         std_difference_count = std_difference_count r,
                         anomaly = l, anomaly_score = s, score_normalized = n\<rparr>)
                      (zip fdf (zip labels (zip scores (normalize_scores scores))))"
  have "scored_df f c fdf = Inr ?tbl"
    using assms by (simp add: scored_df_def)
  moreover have "map fdevice ?tbl = map fdevice fdf"
    using assms(2,4) by (intro nth_equalityI) simp_all
  moreover have "map mean_difference_count ?tbl = map mean_difference_count fdf"
    using assms(2,4) by (intro nth_equalityI) simp_all
  moreover have "map std_difference_count ?tbl = map std_difference_count fdf"
    using assms(2,4) by (intro nth_equalityI) simp_all
  moreover have "map anomaly ?tbl = labels"
    using assms(2,4) by (intro nth_equalityI) simp_all
  moreover have "map anomaly_score ?tbl = scores"
    using assms(2,4) by (intro nth_equalityI) simp_all
  moreover have "map score_normalized ?tbl = normalize_scores scores"
    using assms(2,4) by (intro nth_equalityI) simp_all
  ultimately show ?thesis by blast
qed

lemma scored_df_Inr:
  assumes "scored_df f c fdf = Inr tbl"
  shows "\<exists>labels scores. fit_predict f c random_state (features fdf) = Inr labels \<and>
           length labels = length fdf \<and>
           decision_function f c random_state (features fdf) = Inr scores \<and>
           length scores = length fdf"
  using assms by (auto simp: scored_df_def split: sum.splits if_splits)

lemma wrap_int64_id: "- (2 ^ 63) \<le> x \<Longrightarrow> x < 2 ^ 63 \<Longrightarrow> wrap_int64 x = x"
  by (simp add: wrap_int64_def)

lemmas ex_defs = df_fleet_def df_no_index_def df_one_device_def df_mixed_report_def scan_record_def input_columns_def
  toy_forest_def
lemmas pipe_defs = analyze_df_def scored_table_def feature_table_def preprocessing_def data_no_proc_def missing_def
      assign_difference_count_def set_total_proc_count_by_label_def wrap_int64_id
      set_total_proc_count_def set_difference_count_def setitem_columns_def filtered_df_def
      device_features_def group_values_def group_count_def scored_df_def features_def random_state_def
      anomalous_devices_def normalize_scores_def min_max_scaler_def data_min_def data_max_def mean_def std_def
      scan_summaries_def feature_rows_def

lemma scan_summaries_df_fleet:
  "scan_summaries (rows df_fleet) =
     [(''A'', 1, 0), (''A'', 2, 2), (''A'', 3, 4), (''B'', 1, - 30), (''B'', 2, - 30), (''C'', 1, 0)]"
  by (simp add: ex_defs scan_summaries_def group_count_def wrap_int64_id)

lemma feature_rows_df_fleet:
  "feature_rows df_fleet =
     [\<lparr>fdevice = ''A'', mean_difference_count = 2, std_difference_count = Some 2\<rparr>,
      \<lparr>fdevice = ''B'', mean_difference_count = - 30, std_difference_count = Some 0\<rparr>,
      \<lparr>fdevice = ''C'', mean_difference_count = 0, std_difference_count = None\<rparr>]"
  by (simp add: feature_rows_def scan_summaries_df_fleet filtered_df_def device_features_def
      group_values_def mean_def std_def)

lemma feature_rows_df_one_device:
  "feature_rows df_one_device =
     [\<lparr>fdevice = ''A'', mean_difference_count = - 1 / 2,
       std_difference_count = Some (sqrt (1 / 2))\<rparr>]"
  by (simp add: ex_defs pipe_defs power2_eq_square)

text \<open>
  Claim C1. For a frame that has the columns the code asks for, and a forest that returns
  one label and one score per feature row, \<open>analyze_df\<close> returns exactly the devices whose
  \<open>anomaly\<close> label in the scored table is \<open>-1\<close>. The scored table has the devices of the
  feature rows, in their order, and carries the labels of \<open>fit_predict\<close>.
\<close>

theorem analyze_df_returns_anomalous_devices:
  assumes "set input_columns \<subseteq> set (columns df)"
    and "fit_predict f c random_state (features (feature_rows df)) = Inr labels"
    and "length labels = length (feature_rows df)"
    and "decision_function f c random_state (features (feature_rows df)) = Inr scores"
    and "length scores = length (feature_rows df)"
  shows "\<exists>tbl. scored_table f c df = Inr tbl \<and>
           map fdevice tbl = map fdevice (feature_rows df) \<and> map anomaly tbl = labels \<and>
           snd (analyze_df f c df) = Inr {fdevice r |r. r \<in> set tbl \<and> anomaly r = - 1}"
proof -
  from scored_df_ok [OF assms(2-5)] obtain tbl where
    tbl: "scored_df f c (feature_rows df) = Inr tbl"
      "map fdevice tbl = map fdevice (feature_rows df)" "map anomaly tbl = labels"
    by blast
  have st: "scored_table f c df = Inr tbl"
    by (simp add: scored_table_def feature_table_ok [OF assms(1)] tbl(1))
  have "snd (analyze_df f c df) = Inr (anomalous_devices tbl)"
    by (simp add: analyze_df_def st)
  moreover have "anomalous_devices tbl = {fdevice r |r. r \<in> set tbl \<and> anomaly r = - 1}"
    by (auto simp: anomalous_devices_def)
  ultimately show ?thesis using st tbl(2,3) by auto
qed

text \<open>
  The hypotheses of C1 hold for the example fleet, where only device \<open>B\<close> is flagged.
\<close>

theorem analyze_df_returns_anomalous_devices_witness:
  "set input_columns \<subseteq> set (columns df_fleet) \<and>
   fit_predict toy_forest (15 / 100) random_state (features (feature_rows df_fleet)) = Inr [1, - 1, 1] \<and>
   decision_function toy_forest (15 / 100) random_state (features (feature_rows df_fleet)) = Inr [8, - 20, 10] \<and>
   map fdevice (feature_rows df_fleet) = [''A'', ''B'', ''C''] \<and>
   snd (analyze_df toy_forest (15 / 100) df_fleet) = Inr {''B''}"
proof -
  have cols: "set input_columns \<subseteq> set (columns df_fleet)"
    by (simp add: ex_defs)
  have fp: "fit_predict toy_forest (15 / 100) random_state (features (feature_rows df_fleet)) = Inr [1, - 1, 1]"
    by (simp add: feature_rows_df_fleet features_def toy_forest_def)
  have dfn: "decision_function toy_forest (15 / 100) random_state (features (feature_rows df_fleet)) = Inr [8, - 20, 10]"
    by (simp add: feature_rows_df_fleet features_def toy_forest_def)
  have dev: "map fdevice (feature_rows df_fleet) = [''A'', ''B'', ''C'']"
    by (simp add: feature_rows_df_fleet)
  have len: "length [1, - 1, 1 :: int] = length (feature_rows df_fleet)"
    "length [8, - 20, 10 :: real] = length (feature_rows df_fleet)"
    by (simp_all add: feature_rows_df_fleet)
  have res: "snd (analyze_df toy_forest (15 / 100) df_fleet) = Inr {''B''}"
    by (simp add: analyze_df_def scored_table_def feature_table_ok [OF cols] feature_rows_df_fleet
        scored_df_def features_def toy_forest_def anomalous_devices_def normalize_scores_def
        min_max_scaler_def data_min_def data_max_def)
  from analyze_df_returns_anomalous_devices [OF cols fp len(1) dfn len(2)] cols fp dfn dev res
  show ?thesis by (simp only: simp_thms)
qed

text \<open>
  Claim C10. A frame without a column \<open>Unnamed: 0\<close> makes \<open>analyze_df\<close> fail with a
  \<open>KeyError\<close>. When the four columns read by lines 31 and 32 are present, the error is the
  one of \<open>drop\<close> at line 36 and names \<open>Unnamed: 0\<close> first. The outcome does not depend on the
  forest or on the contamination: no scoring takes place.
\<close>

theorem analyze_df_requires_unnamed_0:
  assumes "''Unnamed: 0'' \<notin> set (columns df)"
  shows "(\<exists>ls. snd (analyze_df f c df) = Inl (KeyError ls)) \<and>
     (set [''device'', ''scan'', ''procName'', ''scan_proc_count''] \<subseteq> set (columns df) \<longrightarrow>
        (\<exists>ls. snd (analyze_df f c df) = Inl (KeyError (''Unnamed: 0'' # ls)))) \<and>
     snd (analyze_df f c df) = snd (analyze_df f' c' df)"
proof -
  have key: "\<exists>ls. (feature_table df :: 'a error + feature_row list) = Inl (KeyError ls)"
    using assms
    by (auto simp: feature_table_def preprocessing_def assign_difference_count_def
        data_no_proc_def missing_def set_total_proc_count_def set_total_proc_count_by_label_def
        set_difference_count_def setitem_columns_def
        split: list.splits)
  have first: "\<exists>ls. (feature_table df :: 'a error + feature_row list) = Inl (KeyError (''Unnamed: 0'' # ls))"
    if "set [''device'', ''scan'', ''procName'', ''scan_proc_count''] \<subseteq> set (columns df)"
    using assms that
    by (auto simp: feature_table_def preprocessing_def assign_difference_count_def
        data_no_proc_def missing_def set_total_proc_count_def
        set_difference_count_def setitem_columns_def)
  from key obtain ls where ls: "(feature_table df :: 'a error + feature_row list) = Inl (KeyError ls)" ..
  then have 1: "snd (analyze_df f c df) = Inl (KeyError ls)"
    and 3: "snd (analyze_df f' c' df) = Inl (KeyError ls)"
    by (simp_all add: analyze_df_def scored_table_def)
  have 2: "\<exists>ls. snd (analyze_df f c df) = Inl (KeyError (''Unnamed: 0'' # ls))"
    if "set [''device'', ''scan'', ''procName'', ''scan_proc_count''] \<subseteq> set (columns df)"
    using first [OF that] by (auto simp: analyze_df_def scored_table_def)
  from 1 2 3 show ?thesis by auto
qed

text \<open>
  A frame with the five documented columns and no index column.
\<close>

theorem analyze_df_requires_unnamed_0_witness:
  "''Unnamed: 0'' \<notin> set (columns df_no_index) \<and>
   snd (analyze_df toy_forest (15 / 100) df_no_index) = Inl (KeyError [''Unnamed: 0''])"
proof -
  have no: "''Unnamed: 0'' \<notin> set (columns df_no_index)"
    by (simp add: ex_defs)
  have res: "snd (analyze_df toy_forest (15 / 100) df_no_index) = Inl (KeyError [''Unnamed: 0''])"
    by (simp add: ex_defs pipe_defs)
  from analyze_df_requires_unnamed_0 [OF no, of toy_forest "15 / 100" toy_forest "15 / 100"] no res
  show ?thesis by (simp only: simp_thms)
qed

lemma drop_duplicates_all_equal:
  assumes "xs \<noteq> []" and "\<forall>x\<in>set xs. x = a"
  shows "drop_duplicates xs = [a]"
proof (cases xs)
  case Nil
  with assms show ?thesis by simp
next
  case (Cons x ys)
  with assms have "x = a" and "filter (\<lambda>y. y \<noteq> x) ys = []"
    by (auto simp: filter_empty_conv)
  with Cons show ?thesis by simp
qed

section \<open>Feature rows\<close>

lemma fdevice_device_features [simp]: "fdevice (device_features dnp d) = d"
  by (simp add: device_features_def)

lemma filtered_df_eq:
  "filtered_df dnp = map (device_features dnp) (drop_duplicates (map fst dnp))"
proof -
  have "inj_on (device_features dnp) A" for A
  proof (rule inj_onI)
    fix x y
    assume "device_features dnp x = device_features dnp y"
    then have "fdevice (device_features dnp x) = fdevice (device_features dnp y)" by simp
    then show "x = y" by (simp only: fdevice_device_features)
  qed
  then have inj: "drop_duplicates (map (device_features dnp) (map fst dnp))
      = map (device_features dnp) (drop_duplicates (map fst dnp))"
    by (rule drop_duplicates_map_inj)
  have "map (\<lambda>(d, _, _). device_features dnp d) dnp = map (device_features dnp) (map fst dnp)"
    by (simp add: case_prod_unfold)
  then have "filtered_df dnp = drop_duplicates (map (device_features dnp) (map fst dnp))"
    by (simp only: filtered_df_def)
  with inj show ?thesis by (simp only:)
qed

lemma feature_rows_eq:
  "feature_rows df = map (device_features (scan_summaries (rows df))) (device_ids (rows df))"
proof -
  have "drop_duplicates (map fst (scan_summaries (rows df))) = device_ids (rows df)"
    by (simp add: scan_summaries_def device_ids_def drop_duplicates_map_drop_duplicates o_def)
  then show ?thesis by (simp add: feature_rows_def filtered_df_eq)
qed

lemma fdevice_feature_rows: "map fdevice (feature_rows df) = device_ids (rows df)"
  by (simp add: feature_rows_eq o_def)

text \<open>
  The \<open>difference_count\<close> that the code forms for the rows of device \<open>d\<close> and scan \<open>s\<close> when
  they report one count: the non-missing process names minus the reported count, in int64.
\<close>

lemma group_values_scan_summaries:
  assumes const: "\<forall>r\<in>set rs. \<forall>r'\<in>set rs.
      device r = d \<and> device r' = d \<and> scan r = scan r' \<longrightarrow> scan_proc_count r = scan_proc_count r'"
  shows "group_values (scan_summaries rs) d =
     map (\<lambda>s. wrap_int64
            (int (length (filter (\<lambda>x. device x = d \<and> scan x = s \<and> procName x \<noteq> None) rs))
             - reported_proc_count rs d s))
       (device_scans rs d)"
proof -
  let ?diff = "\<lambda>s. wrap_int64
            (int (length (filter (\<lambda>x. device x = d \<and> scan x = s \<and> procName x \<noteq> None) rs))
             - reported_proc_count rs d s)"
  let ?key = "\<lambda>r. (device r, scan r, wrap_int64 (group_count rs r - scan_proc_count r))"
  let ?K = "\<lambda>s. (d, s, ?diff s)"
  let ?P = "\<lambda>(d', _, _). d' = d"
  have key: "?key r = ?K (scan r)" if r: "r \<in> set rs" "device r = d" for r
  proof -
    let ?grp = "filter (\<lambda>x. device x = d \<and> scan x = scan r) rs"
    from r have "r \<in> set ?grp" by simp
    then obtain r0 rest where grp: "?grp = r0 # rest"
      by (cases ?grp) auto
    then have "r0 \<in> set ?grp" by simp
    then have r0: "r0 \<in> set rs" "device r0 = d" "scan r0 = scan r" by auto
    from const r0(1) have "\<forall>r'\<in>set rs.
        device r0 = d \<and> device r' = d \<and> scan r0 = scan r' \<longrightarrow> scan_proc_count r0 = scan_proc_count r'"
      by (rule bspec)
    then have "device r0 = d \<and> device r = d \<and> scan r0 = scan r \<longrightarrow> scan_proc_count r0 = scan_proc_count r"
      using r(1) by (rule bspec)
    with r0 r(2) have "scan_proc_count r0 = scan_proc_count r" by simp
    with grp have "reported_proc_count rs d (scan r) = scan_proc_count r"
      by (simp add: reported_proc_count_def)
    moreover have "group_count rs r =
        int (length (filter (\<lambda>x. device x = d \<and> scan x = scan r \<and> procName x \<noteq> None) rs))"
      using r(2) by (simp add: group_count_def)
    ultimately show ?thesis using r(2) by simp
  qed
  have "filter ?P (map ?key rs) = map ?key (filter (\<lambda>r. device r = d) rs)"
    by (simp add: filter_map o_def)
  also have "\<dots> = map ?K (map scan (filter (\<lambda>r. device r = d) rs))"
    using key by (simp add: o_def)
  finally have flt: "filter ?P (map ?key rs) = map ?K (map scan (filter (\<lambda>r. device r = d) rs))" .
  have inj: "inj_on ?K A" for A
    by (rule inj_onI) simp
  have "group_values (scan_summaries rs) d
      = map (\<lambda>(_, _, x). x) (drop_duplicates (filter ?P (map ?key rs)))"
    by (simp add: group_values_def scan_summaries_def filter_drop_duplicates)
  also have "\<dots> = map (\<lambda>(_, _, x). x) (map ?K (device_scans rs d))"
    by (simp only: flt drop_duplicates_map_inj [OF inj] device_scans_def)
  also have "\<dots> = map ?diff (device_scans rs d)"
    by (simp add: o_def)
  finally show ?thesis .
qed

lemma real_of_int_sum_list: "real_of_int (sum_list xs) = sum_list (map real_of_int xs)"
  by (induction xs) simp_all

lemma mean_arithmetic_mean: "mean xs = arithmetic_mean (map real_of_int xs)"
  unfolding mean_def arithmetic_mean_def real_of_int_sum_list by simp

lemma sum_list_squares:
  "(\<Sum>x\<leftarrow>map real_of_int xs. (x - m)\<^sup>2) = (\<Sum>x\<leftarrow>xs. (real_of_int x - m)\<^sup>2)"
  by (induction xs) simp_all

lemma std_sample_std: "std xs = sample_std (map real_of_int xs)"
proof (cases "length xs < 2")
  case True
  then show ?thesis by (simp add: std_def sample_std_def)
next
  case False
  then have "real (length xs - 1) = real (length xs) - 1"
    by (simp add: of_nat_diff)
  with False show ?thesis
    unfolding std_def sample_std_def mean_arithmetic_mean sum_list_squares by simp
qed

lemma reported_in_rows:
  assumes "s \<in> set (device_scans rs d)"
  shows "\<exists>r\<in>set rs. reported_proc_count rs d s = scan_proc_count r"
proof -
  from assms obtain r where r: "r \<in> set rs" "device r = d" "scan r = s"
    by (auto simp: device_scans_def)
  let ?grp = "filter (\<lambda>x. device x = d \<and> scan x = s) rs"
  from r have "r \<in> set ?grp" by simp
  then obtain r0 rest where grp: "?grp = r0 # rest"
    by (cases ?grp) auto
  then have "r0 \<in> set ?grp" by simp
  then have "r0 \<in> set rs" by simp
  moreover from grp have "reported_proc_count rs d s = scan_proc_count r0"
    by (simp add: reported_proc_count_def)
  ultimately show ?thesis by blast
qed

lemma code_difference_spec:
  assumes named: "every_row_named rs" and small: "small_counts rs"
    and s: "s \<in> set (device_scans rs d)"
  shows "wrap_int64
           (int (length (filter (\<lambda>x. device x = d \<and> scan x = s \<and> procName x \<noteq> None) rs))
            - reported_proc_count rs d s) = discrepancy rs d s"
proof -
  have "filter (\<lambda>x. device x = d \<and> scan x = s \<and> procName x \<noteq> None) rs =
      filter (\<lambda>x. device x = d \<and> scan x = s) rs"
    using named by (intro filter_cong) (auto simp: every_row_named_def)
  then have obs: "int (length (filter (\<lambda>x. device x = d \<and> scan x = s \<and> procName x \<noteq> None) rs)) =
      observed_proc_count rs d s"
    by (simp add: observed_proc_count_def)
  have "length (filter (\<lambda>x. device x = d \<and> scan x = s) rs) \<le> length rs"
    by (rule length_filter_le)
  moreover from small have "length rs < 2 ^ 21"
    by (simp add: small_counts_def)
  ultimately have "length (filter (\<lambda>x. device x = d \<and> scan x = s) rs) < 2 ^ 21"
    by (rule le_less_trans)
  then have "int (length (filter (\<lambda>x. device x = d \<and> scan x = s) rs)) < 2 ^ 21"
    by (metis of_nat_less_iff of_nat_numeral of_nat_power)
  then have o: "0 \<le> observed_proc_count rs d s" "observed_proc_count rs d s < 2 ^ 21"
    by (simp_all add: observed_proc_count_def)
  from reported_in_rows [OF s] obtain r where r: "r \<in> set rs"
    "reported_proc_count rs d s = scan_proc_count r" by blast
  from small have "\<forall>r\<in>set rs. 0 \<le> scan_proc_count r \<and> scan_proc_count r < 2 ^ 31"
    by (simp add: small_counts_def)
  then have "0 \<le> scan_proc_count r \<and> scan_proc_count r < 2 ^ 31"
    using r(1) by (rule bspec)
  with r(2) have p: "0 \<le> reported_proc_count rs d s" "reported_proc_count rs d s < 2 ^ 31"
    by simp_all
  from o p have "- (2 ^ 63) \<le> observed_proc_count rs d s - reported_proc_count rs d s"
    and "observed_proc_count rs d s - reported_proc_count rs d s < 2 ^ 63"
    by simp_all
  then have "wrap_int64 (observed_proc_count rs d s - reported_proc_count rs d s) =
      observed_proc_count rs d s - reported_proc_count rs d s"
    by (rule wrap_int64_id)
  then show ?thesis
    unfolding obs discrepancy_def .
qed

lemma device_features_spec:
  assumes "\<forall>r\<in>set rs. \<forall>r'\<in>set rs.
      device r = d \<and> device r' = d \<and> scan r = scan r' \<longrightarrow> scan_proc_count r = scan_proc_count r'"
    and "every_row_named rs" and "small_counts rs"
  shows "device_features (scan_summaries rs) d = device_feature_vector rs d"
proof -
  have "group_values (scan_summaries rs) d = discrepancies rs d"
    unfolding group_values_scan_summaries [OF assms(1)] discrepancies_def
    by (intro map_cong refl code_difference_spec [OF assms(2,3)])
  then show ?thesis
    unfolding device_features_def device_feature_vector_def mean_arithmetic_mean std_sample_std
    by simp
qed

text \<open>
  Claim C3, as amended. For a frame that has the columns the code asks for, the feature
  table has exactly one row per distinct device, in the order of first occurrence. If in
  addition the rows of each device and scan report one and the same process count, every
  row names a process, and the reported counts are not negative and small (below \<open>2^31\<close>,
  with fewer than \<open>2^21\<close> rows, so that no int64 operation wraps and every integer is
  exact in float64), then every row is the Device Feature Vector of the specification:
  the arithmetic mean of the per-scan discrepancies and their sample standard deviation
  with divisor \<open>n - 1\<close> (missing for a single scan). Mean and deviation are the exact
  real values; the rounding of the final float64 division and square root is not
  modelled.
\<close>

theorem feature_rows_device_feature_vectors:
  assumes "set input_columns \<subseteq> set (columns df)"
  shows "(feature_table df :: 'e error + feature_row list) = Inr (feature_rows df) \<and>
     map fdevice (feature_rows df) = device_ids (rows df) \<and>
     (reported_count_constant (rows df) \<and> every_row_named (rows df) \<and> small_counts (rows df) \<longrightarrow>
        feature_rows df = map (device_feature_vector (rows df)) (device_ids (rows df)))"
proof (intro conjI impI)
  show "(feature_table df :: 'e error + feature_row list) = Inr (feature_rows df)"
    using assms by (rule feature_table_ok)
  show "map fdevice (feature_rows df) = device_ids (rows df)"
    by (rule fdevice_feature_rows)
  assume h: "reported_count_constant (rows df) \<and> every_row_named (rows df) \<and> small_counts (rows df)"
  then have const: "reported_count_constant (rows df)"
    and named: "every_row_named (rows df)" and small: "small_counts (rows df)"
    by simp_all
  have "device_features (scan_summaries (rows df)) d = device_feature_vector (rows df) d" for d
  proof (rule device_features_spec [OF _ named small], intro ballI impI)
    fix r r'
    assume r: "r \<in> set (rows df)" "r' \<in> set (rows df)"
      and "device r = d \<and> device r' = d \<and> scan r = scan r'"
    then have eq: "device r = device r' \<and> scan r = scan r'" by simp
    from const have "\<forall>r\<in>set (rows df). \<forall>r'\<in>set (rows df).
        device r = device r' \<and> scan r = scan r' \<longrightarrow> scan_proc_count r = scan_proc_count r'"
      unfolding reported_count_constant_def .
    then have "\<forall>r'\<in>set (rows df).
        device r = device r' \<and> scan r = scan r' \<longrightarrow> scan_proc_count r = scan_proc_count r'"
      using r(1) by (rule bspec)
    then have "device r = device r' \<and> scan r = scan r' \<longrightarrow> scan_proc_count r = scan_proc_count r'"
      using r(2) by (rule bspec)
    with eq show "scan_proc_count r = scan_proc_count r'" by (rule rev_mp)
  qed
  then show "feature_rows df = map (device_feature_vector (rows df)) (device_ids (rows df))"
    unfolding feature_rows_eq by simp
qed

lemmas spec_defs = device_ids_def device_feature_vector_def discrepancies_def device_scans_def
  discrepancy_def observed_proc_count_def reported_proc_count_def arithmetic_mean_def sample_std_def
  reported_count_constant_def single_scan_device_def every_row_named_def small_counts_def

text \<open>
  The example fleet satisfies the hypotheses of C3; its feature vectors are computed.
\<close>

theorem feature_rows_device_feature_vectors_witness:
  "set input_columns \<subseteq> set (columns df_fleet) \<and>
   reported_count_constant (rows df_fleet) \<and>
   every_row_named (rows df_fleet) \<and> small_counts (rows df_fleet) \<and>
   device_ids (rows df_fleet) = [''A'', ''B'', ''C''] \<and>
   map (device_feature_vector (rows df_fleet)) (device_ids (rows df_fleet)) =
     [\<lparr>fdevice = ''A'', mean_difference_count = 2, std_difference_count = Some 2\<rparr>,
      \<lparr>fdevice = ''B'', mean_difference_count = - 30, std_difference_count = Some 0\<rparr>,
      \<lparr>fdevice = ''C'', mean_difference_count = 0, std_difference_count = None\<rparr>] \<and>
   feature_rows df_fleet = map (device_feature_vector (rows df_fleet)) (device_ids (rows df_fleet))"
proof -
  have cols: "set input_columns \<subseteq> set (columns df_fleet)"
    by (simp add: ex_defs)
  have const: "reported_count_constant (rows df_fleet)"
    by (simp add: ex_defs reported_count_constant_def)
  have named: "every_row_named (rows df_fleet)"
    by (simp add: ex_defs every_row_named_def)
  have small: "small_counts (rows df_fleet)"
    by (simp add: ex_defs small_counts_def)
  have ids: "device_ids (rows df_fleet) = [''A'', ''B'', ''C'']"
    by (simp add: ex_defs device_ids_def)
  have vecs: "map (device_feature_vector (rows df_fleet)) [''A'', ''B'', ''C''] =
     [\<lparr>fdevice = ''A'', mean_difference_count = 2, std_difference_count = Some 2\<rparr>,
      \<lparr>fdevice = ''B'', mean_difference_count = - 30, std_difference_count = Some 0\<rparr>,
      \<lparr>fdevice = ''C'', mean_difference_count = 0, std_difference_count = None\<rparr>]"
    by (simp add: ex_defs spec_defs)
  from const named small
  have h: "reported_count_constant (rows df_fleet) \<and> every_row_named (rows df_fleet) \<and>
      small_counts (rows df_fleet)"
    by (intro conjI)
  from feature_rows_device_feature_vectors [OF cols]
  have "reported_count_constant (rows df_fleet) \<and> every_row_named (rows df_fleet) \<and>
      small_counts (rows df_fleet) \<longrightarrow>
      feature_rows df_fleet = map (device_feature_vector (rows df_fleet)) (device_ids (rows df_fleet))"
    by (elim conjE)
  then have "feature_rows df_fleet = map (device_feature_vector (rows df_fleet)) (device_ids (rows df_fleet))"
    using h by (rule mp)
  with cols const named small ids vecs show ?thesis by (simp only: simp_thms)
qed

lemma single_scan_deviceD:
  assumes "single_scan_device rs d"
    and "r \<in> set rs" and "r' \<in> set rs" and "device r = d" and "device r' = d"
  shows "scan r = scan r' \<and> scan_proc_count r = scan_proc_count r'"
proof -
  from assms(1) have "\<forall>r\<in>set rs. \<forall>r'\<in>set rs.
         device r = d \<and> device r' = d \<longrightarrow>
           scan r = scan r' \<and> scan_proc_count r = scan_proc_count r'"
    unfolding single_scan_device_def by (rule conjunct2)
  then have "\<forall>r'\<in>set rs. device r = d \<and> device r' = d \<longrightarrow>
           scan r = scan r' \<and> scan_proc_count r = scan_proc_count r'"
    using assms(2) by (rule bspec)
  then have "device r = d \<and> device r' = d \<longrightarrow>
           scan r = scan r' \<and> scan_proc_count r = scan_proc_count r'"
    using assms(3) by (rule bspec)
  moreover from assms(4,5) have "device r = d \<and> device r' = d" by (rule conjI)
  ultimately show ?thesis by (rule mp)
qed

lemma single_scan_device_scans:
  assumes "single_scan_device rs d"
  shows "\<exists>s. device_scans rs d = [s]"
proof -
  from assms have "d \<in> device ` set rs"
    unfolding single_scan_device_def by (rule conjunct1)
  then obtain r0 where r0: "r0 \<in> set rs" "device r0 = d"
    by (auto simp: image_iff)
  let ?ss = "map scan (filter (\<lambda>r. device r = d) rs)"
  from r0 have ne: "?ss \<noteq> []"
    by (auto simp: filter_empty_conv)
  have "\<forall>s\<in>set ?ss. s = scan r0"
  proof
    fix s
    assume "s \<in> set ?ss"
    then obtain r where r: "r \<in> set rs" "device r = d" "s = scan r"
      by (auto simp: image_iff)
    from single_scan_deviceD [OF assms r(1) r0(1) r(2) r0(2)] r(3)
    show "s = scan r0" by simp
  qed
  with ne have "drop_duplicates ?ss = [scan r0]"
    by (rule drop_duplicates_all_equal)
  then show ?thesis
    by (simp add: device_scans_def)
qed

lemma single_scan_device_features:
  assumes "single_scan_device rs d"
  shows "\<exists>m. device_features (scan_summaries rs) d =
           \<lparr>fdevice = d, mean_difference_count = m, std_difference_count = None\<rparr>"
proof -
  have "\<forall>r\<in>set rs. \<forall>r'\<in>set rs.
      device r = d \<and> device r' = d \<and> scan r = scan r' \<longrightarrow> scan_proc_count r = scan_proc_count r'"
  proof (intro ballI impI)
    fix r r'
    assume "r \<in> set rs" "r' \<in> set rs" and "device r = d \<and> device r' = d \<and> scan r = scan r'"
    then have "scan r = scan r' \<and> scan_proc_count r = scan_proc_count r'"
      by (intro single_scan_deviceD [OF assms]) simp_all
    then show "scan_proc_count r = scan_proc_count r'" by (rule conjunct2)
  qed
  from group_values_scan_summaries [OF this] single_scan_device_scans [OF assms]
  obtain x where "group_values (scan_summaries rs) d = [x]"
    by auto
  then show ?thesis
    by (simp add: device_features_def std_def)
qed

lemma scored_df_rows:
  assumes "scored_df f c fdf = Inr tbl" and "r \<in> set fdf"
  shows "\<exists>r'\<in>set tbl. fdevice r' = fdevice r \<and> std_difference_count r' = std_difference_count r"
proof -
  from scored_df_Inr [OF assms(1)] obtain labels scores where
    "fit_predict f c random_state (features fdf) = Inr labels" "length labels = length fdf"
    "decision_function f c random_state (features fdf) = Inr scores" "length scores = length fdf"
    by blast
  from scored_df_ok [OF this] assms(1) have
    dev: "map fdevice tbl = map fdevice fdf" and
    sd: "map std_difference_count tbl = map std_difference_count fdf"
    by auto
  from dev have len: "length tbl = length fdf"
    by (rule map_eq_imp_length_eq)
  from assms(2) obtain i where i: "i < length fdf" "fdf ! i = r"
    by (auto simp: in_set_conv_nth)
  have "fdevice (tbl ! i) = fdevice r"
    using i len nth_map [of i tbl fdevice] nth_map [of i fdf fdevice] dev by simp
  moreover have "std_difference_count (tbl ! i) = std_difference_count r"
    using i len nth_map [of i tbl std_difference_count] nth_map [of i fdf std_difference_count] sd
    by simp
  moreover have "tbl ! i \<in> set tbl"
    using i len by simp
  ultimately show ?thesis by blast
qed

text \<open>
  Claim C2, as amended. A device all of whose rows belong to one scan (with one reported
  count) gets the missing value as its \<open>std_difference_count\<close>. It is not excluded: its row
  is part of the feature table, its feature pair is part of the matrix handed to the
  forest, and whenever scoring succeeds the device has a row in the scored table.
\<close>

theorem single_scan_device_is_scored:
  assumes "set input_columns \<subseteq> set (columns df)"
    and "single_scan_device (rows df) d"
  shows "\<exists>m. \<lparr>fdevice = d, mean_difference_count = m, std_difference_count = None\<rparr>
               \<in> set (feature_rows df) \<and>
             (m, None) \<in> set (features (feature_rows df)) \<and>
             scored_table f c df = scored_df f c (feature_rows df) \<and>
             (\<forall>tbl. scored_table f c df = Inr tbl \<longrightarrow>
                (\<exists>r\<in>set tbl. fdevice r = d \<and> std_difference_count r = None))"
proof -
  from single_scan_device_features [OF assms(2)] obtain m where
    m: "device_features (scan_summaries (rows df)) d =
          \<lparr>fdevice = d, mean_difference_count = m, std_difference_count = None\<rparr>" ..
  let ?r = "\<lparr>fdevice = d, mean_difference_count = m, std_difference_count = None\<rparr>"
  from assms(2) have "d \<in> device ` set (rows df)"
    unfolding single_scan_device_def by (rule conjunct1)
  then have "d \<in> set (device_ids (rows df))"
    by (simp add: device_ids_def)
  then have "device_features (scan_summaries (rows df)) d \<in> set (feature_rows df)"
    unfolding feature_rows_eq by simp
  with m have mem: "?r \<in> set (feature_rows df)" by simp
  then have "(\<lambda>r. (mean_difference_count r, std_difference_count r)) ?r
      \<in> set (features (feature_rows df))"
    unfolding features_def set_map by (rule imageI)
  then have feat: "(m, None) \<in> set (features (feature_rows df))" by simp
  have st: "scored_table f c df = scored_df f c (feature_rows df)"
    by (simp add: scored_table_def feature_table_ok [OF assms(1)])
  have "\<exists>r\<in>set tbl. fdevice r = d \<and> std_difference_count r = None"
    if "scored_table f c df = Inr tbl" for tbl
  proof -
    from that st have "scored_df f c (feature_rows df) = Inr tbl" by simp
    from scored_df_rows [OF this mem] show ?thesis by simp
  qed
  with mem feat st show ?thesis by blast
qed

text \<open>
  Device \<open>C\<close> of the example fleet has a single scan.
\<close>

theorem single_scan_device_is_scored_witness:
  "set input_columns \<subseteq> set (columns df_fleet) \<and> single_scan_device (rows df_fleet) ''C'' \<and>
   (\<exists>m. \<lparr>fdevice = ''C'', mean_difference_count = m, std_difference_count = None\<rparr>
      \<in> set (feature_rows df_fleet) \<and>
      (m, None) \<in> set (features (feature_rows df_fleet)))"
proof -
  have cols: "set input_columns \<subseteq> set (columns df_fleet)"
    by (simp add: ex_defs)
  have single: "single_scan_device (rows df_fleet) ''C''"
    by (simp add: ex_defs single_scan_device_def)
  from single_scan_device_is_scored [OF cols single, of toy_forest "15 / 100"]
  have "\<exists>m. \<lparr>fdevice = ''C'', mean_difference_count = m, std_difference_count = None\<rparr>
      \<in> set (feature_rows df_fleet) \<and>
      (m, None) \<in> set (features (feature_rows df_fleet))"
    by blast
  with cols single show ?thesis by (simp only: simp_thms)
qed

text \<open>
  Claim C3 as stated fails on three kinds of input. First, the rows of one scan report
  different counts: device \<open>A\<close> has a single scan with two process rows reporting 1 and
  2; the code keeps both differences (1 and 0) and yields mean \<open>1/2\<close> and a defined
  standard deviation, whereas the specification has one discrepancy for the scan
  (2 observed - 1 reported first), hence mean 1 and a missing standard deviation.
  Second, rows without a process name: line 31 counts 0 names where the group has 1
  row, so the code's mean is 0 and the specification's is 1. Third, a reported count of
  \<open>-2^63\<close>: the int64 difference \<open>1 - (-2^63)\<close> wraps to \<open>-2^63 + 1\<close>, whereas the
  discrepancy is \<open>2^63 + 1\<close>.
\<close>

theorem mixed_report_counterexample:
  "set input_columns \<subseteq> set (columns df_mixed_report) \<and>
   (feature_table df_mixed_report :: unit error + feature_row list) =
     Inr [\<lparr>fdevice = ''A'', mean_difference_count = 1 / 2,
           std_difference_count = Some (sqrt (1 / 2))\<rparr>] \<and>
   discrepancies (rows df_mixed_report) ''A'' = [1] \<and>
   device_feature_vector (rows df_mixed_report) ''A'' =
     \<lparr>fdevice = ''A'', mean_difference_count = 1, std_difference_count = None\<rparr> \<and>
   reported_count_constant (rows df_unnamed_process) \<and>
   map mean_difference_count (feature_rows df_unnamed_process) = [0] \<and>
   discrepancies (rows df_unnamed_process) ''A'' = [1, 1] \<and>
   mean_difference_count (device_feature_vector (rows df_unnamed_process) ''A'') = 1 \<and>
   reported_count_constant (rows df_least_int64) \<and> every_row_named (rows df_least_int64) \<and>
   scan_summaries (rows df_least_int64) =
     [(''A'', 1, - 9223372036854775807), (''A'', 2, 1)] \<and>
   map mean_difference_count (feature_rows df_least_int64) = [- 4611686018427387903] \<and>
   discrepancies (rows df_least_int64) ''A'' = [9223372036854775809, 1] \<and>
   mean_difference_count (device_feature_vector (rows df_least_int64) ''A'') = 4611686018427387905"
proof -
  have 1: "set input_columns \<subseteq> set (columns df_mixed_report)"
    by (simp add: ex_defs)
  have 2: "(feature_table df_mixed_report :: unit error + feature_row list) =
     Inr [\<lparr>fdevice = ''A'', mean_difference_count = 1 / 2,
           std_difference_count = Some (sqrt (1 / 2))\<rparr>]"
    by (simp add: ex_defs pipe_defs power2_eq_square)
  have 3: "discrepancies (rows df_mixed_report) ''A'' = [1]"
    by (simp add: ex_defs spec_defs)
  have 4: "device_feature_vector (rows df_mixed_report) ''A'' =
     \<lparr>fdevice = ''A'', mean_difference_count = 1, std_difference_count = None\<rparr>"
    by (simp add: ex_defs spec_defs)
  have 5: "reported_count_constant (rows df_unnamed_process)"
    by (simp add: df_unnamed_process_def scan_record_def reported_count_constant_def)
  have 6: "map mean_difference_count (feature_rows df_unnamed_process) = [0]"
    by (simp add: df_unnamed_process_def scan_record_def input_columns_def pipe_defs)
  have 7: "discrepancies (rows df_unnamed_process) ''A'' = [1, 1]"
    by (simp add: df_unnamed_process_def scan_record_def spec_defs)
  have 8: "mean_difference_count (device_feature_vector (rows df_unnamed_process) ''A'') = 1"
    by (simp add: device_feature_vector_def 7 arithmetic_mean_def)
  have 9: "reported_count_constant (rows df_least_int64)"
    by (simp add: df_least_int64_def scan_record_def reported_count_constant_def)
  have 10: "every_row_named (rows df_least_int64)"
    by (simp add: df_least_int64_def scan_record_def every_row_named_def)
  have 11: "scan_summaries (rows df_least_int64) =
     [(''A'', 1, - 9223372036854775807), (''A'', 2, 1)]"
    by (simp add: df_least_int64_def scan_record_def scan_summaries_def group_count_def
        wrap_int64_def)
  have 12: "discrepancies (rows df_least_int64) ''A'' = [9223372036854775809, 1]"
    by (simp add: df_least_int64_def scan_record_def spec_defs)
  have 13: "map mean_difference_count (feature_rows df_least_int64) = [- 4611686018427387903]"
    by (simp add: feature_rows_def 11 filtered_df_def device_features_def group_values_def mean_def)
  have 14: "mean_difference_count (device_feature_vector (rows df_least_int64) ''A'') = 4611686018427387905"
    by (simp add: device_feature_vector_def 12 arithmetic_mean_def)
  from 1 2 3 4 5 6 7 8 9 10 11 13 12 14 show ?thesis by (intro conjI)
qed

text \<open>
  Claim C2 as stated fails: device \<open>C\<close> of the example fleet has one scan, its feature pair
  \<open>(0, NaN)\<close> is handed to the forest with the others, and the scored table has a row
  for \<open>C\<close> (labelled normal by the stand-in forest).
\<close>

theorem single_scan_device_counterexample:
  "single_scan_device (rows df_fleet) ''C'' \<and>
   features (feature_rows df_fleet) = [(2, Some 2), (- 30, Some 0), (0, None)] \<and>
   scored_table toy_forest (15 / 100) df_fleet =
     Inr [\<lparr>fdevice = ''A'', mean_difference_count = 2, std_difference_count = Some 2,
            anomaly = 1, anomaly_score = 8, score_normalized = 1 / 15\<rparr>,
          \<lparr>fdevice = ''B'', mean_difference_count = - 30, std_difference_count = Some 0,
            anomaly = - 1, anomaly_score = - 20, score_normalized = 1\<rparr>,
          \<lparr>fdevice = ''C'', mean_difference_count = 0, std_difference_count = None,
            anomaly = 1, anomaly_score = 10, score_normalized = 0\<rparr>]"
  by (simp add: ex_defs pipe_defs spec_defs)

section \<open>Score normalisation\<close>

lemma ball2D: "\<forall>x\<in>A. \<forall>y\<in>A. P x y \<Longrightarrow> x \<in> A \<Longrightarrow> y \<in> A \<Longrightarrow> P x y"
  by blast

lemma data_min_Min: "xs \<noteq> [] \<Longrightarrow> data_min xs = Min (set xs)"
  by (cases xs) (simp_all add: data_min_def flip: Min.set_eq_fold)

lemma data_max_Max: "xs \<noteq> [] \<Longrightarrow> data_max xs = Max (set xs)"
  by (cases xs) (simp_all add: data_max_def flip: Max.set_eq_fold)

lemma min_max_scaler_Min_Max:
  "min_max_scaler xs =
     (if Max (set xs) = Min (set xs) then map (\<lambda>_. 0) xs
      else map (\<lambda>x. (x - Min (set xs)) / (Max (set xs) - Min (set xs))) xs)"
  by (cases "xs = []") (simp_all add: min_max_scaler_def data_min_Min data_max_Max)

lemma min_max_scaler_range:
  assumes "y \<in> set (min_max_scaler xs)"
  shows "0 \<le> y \<and> y \<le> 1"
proof (cases "Max (set xs) = Min (set xs)")
  case True
  with assms show ?thesis by (auto simp: min_max_scaler_Min_Max)
next
  case False
  from assms False obtain x where x: "x \<in> set xs"
    "y = (x - Min (set xs)) / (Max (set xs) - Min (set xs))"
    by (auto simp: min_max_scaler_Min_Max)
  have lo: "Min (set xs) \<le> x" and hi: "x \<le> Max (set xs)"
    using x(1) by simp_all
  with False have pos: "0 < Max (set xs) - Min (set xs)" by linarith
  from lo hi pos show ?thesis
    unfolding x(2) by (simp add: divide_simps)
qed

lemma min_max_scaler_bounds_attained:
  assumes "xs \<noteq> []" and "Max (set xs) \<noteq> Min (set xs)"
  shows "0 \<in> set (min_max_scaler xs) \<and> 1 \<in> set (min_max_scaler xs)"
proof -
  let ?g = "\<lambda>x. (x - Min (set xs)) / (Max (set xs) - Min (set xs))"
  from assms(1) have mn: "Min (set xs) \<in> set xs" and mx: "Max (set xs) \<in> set xs"
    by (simp_all add: Min_in Max_in)
  from mn have "?g (Min (set xs)) \<in> ?g ` set xs" by (rule imageI)
  moreover from mx have "?g (Max (set xs)) \<in> ?g ` set xs" by (rule imageI)
  moreover have "?g (Min (set xs)) = 0" by simp
  moreover have "?g (Max (set xs)) = 1" using assms(2) by simp
  ultimately show ?thesis
    using assms(2) by (simp add: min_max_scaler_Min_Max)
qed

lemma Max_eq_Min_iff:
  fixes xs :: "real list"
  assumes "xs \<noteq> []"
  shows "Max (set xs) = Min (set xs) \<longleftrightarrow> (\<forall>a\<in>set xs. \<forall>b\<in>set xs. a = b)"
proof
  assume eq: "Max (set xs) = Min (set xs)"
  show "\<forall>a\<in>set xs. \<forall>b\<in>set xs. a = b"
  proof (intro ballI)
    fix a b
    assume "a \<in> set xs" "b \<in> set xs"
    then have "Min (set xs) \<le> a" "a \<le> Max (set xs)" "Min (set xs) \<le> b" "b \<le> Max (set xs)"
      by simp_all
    with eq show "a = b" by linarith
  qed
next
  assume all: "\<forall>a\<in>set xs. \<forall>b\<in>set xs. a = b"
  from assms have "Min (set xs) \<in> set xs" and "Max (set xs) \<in> set xs"
    by (simp_all add: Min_in Max_in)
  with all show "Max (set xs) = Min (set xs)" by blast
qed

lemma scored_table_Inr:
  assumes "scored_table f c df = Inr tbl"
  shows "scored_df f c (feature_rows df) = Inr tbl"
proof -
  from feature_table_KeyError [of df]
  have "(\<exists>ls. (feature_table df :: 'a error + feature_row list) = Inl (KeyError ls)) \<or>
        (feature_table df :: 'a error + feature_row list) = Inr (feature_rows df)" .
  with assms show ?thesis
    by (auto simp: scored_table_def)
qed

lemma scored_df_columns:
  assumes "scored_df f c fdf = Inr tbl"
  shows "map fdevice tbl = map fdevice fdf"
    and "map score_normalized tbl = normalize_scores (map anomaly_score tbl)"
    and "\<exists>labels. fit_predict f c random_state (features fdf) = Inr labels \<and> map anomaly tbl = labels"
    and "\<exists>scores. decision_function f c random_state (features fdf) = Inr scores \<and>
           map anomaly_score tbl = scores"
proof -
  from scored_df_Inr [OF assms] obtain labels scores where h:
    "fit_predict f c random_state (features fdf) = Inr labels" "length labels = length fdf"
    "decision_function f c random_state (features fdf) = Inr scores" "length scores = length fdf"
    by blast
  from scored_df_ok [OF h] assms have
    "map fdevice tbl = map fdevice fdf" "map anomaly tbl = labels"
    "map anomaly_score tbl = scores" "map score_normalized tbl = normalize_scores scores"
    by auto
  with h show "map fdevice tbl = map fdevice fdf"
    and "map score_normalized tbl = normalize_scores (map anomaly_score tbl)"
    and "\<exists>labels. fit_predict f c random_state (features fdf) = Inr labels \<and> map anomaly tbl = labels"
    and "\<exists>scores. decision_function f c random_state (features fdf) = Inr scores \<and>
           map anomaly_score tbl = scores"
    by simp_all
qed

text \<open>
  Claim C4. In the scored table the column \<open>score_normalized\<close> is the min-max scaling of the
  negated \<open>anomaly_score\<close>: \<open>(-s - min) / (max - min)\<close> over the negated scores of the
  table, and \<open>0\<close> when the range is zero. When two scores differ, every normalized score
  lies in \<open>[0, 1]\<close> and both bounds are attained; when all scores are equal, every
  normalized score is \<open>0\<close>. The negation is line 116 of the code; the scaler itself is
  modelled from the specification.
\<close>

theorem score_normalized_min_max:
  assumes "scored_table f c df = Inr tbl"
  shows "(\<forall>r\<in>set tbl. score_normalized r =
            (if Max ((\<lambda>r. - anomaly_score r) ` set tbl) = Min ((\<lambda>r. - anomaly_score r) ` set tbl) then 0
             else (- anomaly_score r - Min ((\<lambda>r. - anomaly_score r) ` set tbl)) /
                  (Max ((\<lambda>r. - anomaly_score r) ` set tbl) - Min ((\<lambda>r. - anomaly_score r) ` set tbl)))) \<and>
         ((\<exists>r\<in>set tbl. \<exists>r'\<in>set tbl. anomaly_score r \<noteq> anomaly_score r') \<longrightarrow>
            (\<forall>r\<in>set tbl. 0 \<le> score_normalized r \<and> score_normalized r \<le> 1) \<and>
            (\<exists>r\<in>set tbl. score_normalized r = 0) \<and> (\<exists>r\<in>set tbl. score_normalized r = 1)) \<and>
         ((\<forall>r\<in>set tbl. \<forall>r'\<in>set tbl. anomaly_score r = anomaly_score r') \<longrightarrow>
            (\<forall>r\<in>set tbl. score_normalized r = 0))"
proof -
  let ?neg = "map uminus (map anomaly_score tbl)"
  let ?N = "(\<lambda>r. - anomaly_score r) ` set tbl"
  have setneg: "set ?neg = ?N" by (simp add: image_image)
  from scored_df_columns(2) [OF scored_table_Inr [OF assms]]
  have norm: "map score_normalized tbl = min_max_scaler ?neg"
    by (simp add: normalize_scores_def)
  then have setnorm: "score_normalized ` set tbl = set (min_max_scaler ?neg)"
    by (metis set_map)
  have formula: "map score_normalized tbl =
      map (\<lambda>r. if Max ?N = Min ?N then 0 else (- anomaly_score r - Min ?N) / (Max ?N - Min ?N)) tbl"
    unfolding norm min_max_scaler_Min_Max setneg by (simp add: o_def)
  have part1: "\<forall>r\<in>set tbl. score_normalized r =
      (if Max ?N = Min ?N then 0 else (- anomaly_score r - Min ?N) / (Max ?N - Min ?N))"
    using formula by (simp only: map_eq_conv)
  have range: "\<forall>r\<in>set tbl. 0 \<le> score_normalized r \<and> score_normalized r \<le> 1"
  proof
    fix r assume "r \<in> set tbl"
    then have "score_normalized r \<in> set (min_max_scaler ?neg)"
      using setnorm by blast
    then show "0 \<le> score_normalized r \<and> score_normalized r \<le> 1"
      by (rule min_max_scaler_range)
  qed
  have part2: "(\<exists>r\<in>set tbl. score_normalized r = 0) \<and> (\<exists>r\<in>set tbl. score_normalized r = 1)"
    if diff: "\<exists>r\<in>set tbl. \<exists>r'\<in>set tbl. anomaly_score r \<noteq> anomaly_score r'"
  proof -
    from diff have ne: "?neg \<noteq> []" by auto
    from diff have "\<not> (\<forall>a\<in>set ?neg. \<forall>b\<in>set ?neg. a = b)"
      unfolding setneg by auto
    with Max_eq_Min_iff [OF ne] have "Max (set ?neg) \<noteq> Min (set ?neg)" by simp
    from min_max_scaler_bounds_attained [OF ne this]
    have "0 \<in> score_normalized ` set tbl" "1 \<in> score_normalized ` set tbl"
      unfolding setnorm by simp_all
    then show ?thesis by (auto simp: image_iff)
  qed
  have part3: "\<forall>r\<in>set tbl. score_normalized r = 0"
    if same: "\<forall>r\<in>set tbl. \<forall>r'\<in>set tbl. anomaly_score r = anomaly_score r'"
  proof (cases "tbl = []")
    case True
    then show ?thesis by simp
  next
    case False
    then have ne: "?neg \<noteq> []" by simp
    have "\<forall>a\<in>set ?neg. \<forall>b\<in>set ?neg. a = b"
      unfolding setneg
    proof (intro ballI)
      fix a b
      assume "a \<in> ?N" "b \<in> ?N"
      then obtain r r' where r: "r \<in> set tbl" "a = - anomaly_score r"
        and r': "r' \<in> set tbl" "b = - anomaly_score r'"
        by (auto simp: image_iff)
      from ball2D [OF same r(1) r'(1)] r(2) r'(2) show "a = b" by simp
    qed
    with Max_eq_Min_iff [OF ne] have "Max (set ?neg) = Min (set ?neg)"
      by (rule iffD2)
    then have "Max ?N = Min ?N"
      unfolding setneg .
    with part1 show ?thesis by simp
  qed
  from part1 range part2 part3 show ?thesis by blast
qed

text \<open>
  The scored table of the example fleet: negated scores \<open>-8, 20, -10\<close> are scaled to
  \<open>1/15, 1, 0\<close>.
\<close>

theorem score_normalized_min_max_witness:
  "scored_table toy_forest (15 / 100) df_fleet =
     Inr [\<lparr>fdevice = ''A'', mean_difference_count = 2, std_difference_count = Some 2,
            anomaly = 1, anomaly_score = 8, score_normalized = 1 / 15\<rparr>,
          \<lparr>fdevice = ''B'', mean_difference_count = - 30, std_difference_count = Some 0,
            anomaly = - 1, anomaly_score = - 20, score_normalized = 1\<rparr>,
          \<lparr>fdevice = ''C'', mean_difference_count = 0, std_difference_count = None,
            anomaly = 1, anomaly_score = 10, score_normalized = 0\<rparr>]"
proof -
  have tbl: "scored_table toy_forest (15 / 100) df_fleet =
     Inr [\<lparr>fdevice = ''A'', mean_difference_count = 2, std_difference_count = Some 2,
            anomaly = 1, anomaly_score = 8, score_normalized = 1 / 15\<rparr>,
          \<lparr>fdevice = ''B'', mean_difference_count = - 30, std_difference_count = Some 0,
            anomaly = - 1, anomaly_score = - 20, score_normalized = 1\<rparr>,
          \<lparr>fdevice = ''C'', mean_difference_count = 0, std_difference_count = None,
            anomaly = 1, anomaly_score = 10, score_normalized = 0\<rparr>]"
    by (simp add: ex_defs pipe_defs)
  from score_normalized_min_max [OF tbl] tbl show ?thesis by (simp only:)
qed

section \<open>Thresholding\<close>



lemma length_threshold_labels [simp]: "length (threshold_labels c scores) = length scores"
  by (simp add: threshold_labels_def Let_def)





lemma distinct_device_ids [simp]: "distinct (device_ids rs)"
  by (simp add: device_ids_def)



section \<open>What the call does to the frame\<close>

lemma scan_records_set_total_proc_count [simp]:
  "scan_records (set_total_proc_count df) = scan_records df"
  by (simp add: scan_records_def set_total_proc_count_def setitem_columns_def o_def)

lemma scan_records_set_total_proc_count_by_label [simp]:
  "scan_records (set_total_proc_count_by_label df) = scan_records df"
  by (simp add: scan_records_def set_total_proc_count_by_label_def setitem_columns_def o_def)

lemma scan_records_set_difference_count [simp]:
  "scan_records (set_difference_count df) = scan_records df"
  by (simp add: scan_records_def set_difference_count_def setitem_columns_def o_def)

lemma fst_analyze_df: "fst (analyze_df f c df) = fst (preprocessing df :: frame \<times> ('e error + unit))"
  for f :: "'e isolation_forest"
  by (simp add: analyze_df_def)

lemma fst_preprocessing_cases:
  "fst (preprocessing df :: frame \<times> ('e error + unit)) = df \<or>
   fst (preprocessing df :: frame \<times> ('e error + unit)) = set_total_proc_count df \<or>
   fst (preprocessing df :: frame \<times> ('e error + unit)) = set_difference_count (set_total_proc_count df) \<or>
   fst (preprocessing df :: frame \<times> ('e error + unit)) = set_total_proc_count_by_label df \<or>
   fst (preprocessing df :: frame \<times> ('e error + unit)) =
     set_difference_count (set_total_proc_count_by_label df)"
  by (simp add: preprocessing_def assign_difference_count_def split: list.splits)

lemma scan_records_analyze_df: "scan_records (fst (analyze_df f c df)) = scan_records df"
  using fst_preprocessing_cases [of df, where 'e = 'a]
  unfolding fst_analyze_df by (elim disjE) simp_all

text \<open>
  Claim C8, as amended. A call leaves the Scan Records of the caller's frame (the six
  input columns, row by row) and its existing column labels in place, and adds no label
  other than \<open>total_proc_count\<close> and \<open>difference_count\<close>. When the columns read by lines 31
  and 32 are present, the frame after the call is the frame with both columns assigned.
\<close>

theorem analyze_df_frame_effect:
  "scan_records (fst (analyze_df f c df)) = scan_records df \<and>
   set (columns df) \<subseteq> set (columns (fst (analyze_df f c df))) \<and>
   set (columns (fst (analyze_df f c df))) \<subseteq>
     set (columns df) \<union> {''total_proc_count'', ''difference_count''} \<and>
   (set [''device'', ''scan'', ''procName'', ''scan_proc_count''] \<subseteq> set (columns df) \<longrightarrow>
      fst (analyze_df f c df) = set_difference_count (set_total_proc_count df) \<and>
      {''total_proc_count'', ''difference_count''} \<subseteq> set (columns (fst (analyze_df f c df))))"
proof (intro conjI impI)
  show "scan_records (fst (analyze_df f c df)) = scan_records df"
    by (rule scan_records_analyze_df)
  show "set (columns df) \<subseteq> set (columns (fst (analyze_df f c df)))"
    using fst_preprocessing_cases [of df, where 'e = 'a] unfolding fst_analyze_df
    by (elim disjE)
      (auto simp: set_total_proc_count_def set_total_proc_count_by_label_def
        set_difference_count_def setitem_columns_def)
  show "set (columns (fst (analyze_df f c df))) \<subseteq>
     set (columns df) \<union> {''total_proc_count'', ''difference_count''}"
    using fst_preprocessing_cases [of df, where 'e = 'a] unfolding fst_analyze_df
    by (elim disjE)
      (auto simp: set_total_proc_count_def set_total_proc_count_by_label_def
        set_difference_count_def setitem_columns_def
        split: if_splits)
next
  assume h: "set [''device'', ''scan'', ''procName'', ''scan_proc_count''] \<subseteq> set (columns df)"
  then show eq: "fst (analyze_df f c df) = set_difference_count (set_total_proc_count df)"
    by (simp add: fst_analyze_df preprocessing_def assign_difference_count_def missing_def
        set_total_proc_count_def setitem_columns_def)
  show "{''total_proc_count'', ''difference_count''} \<subseteq> set (columns (fst (analyze_df f c df)))"
    unfolding eq by (simp add: set_total_proc_count_def set_difference_count_def setitem_columns_def)
qed

text \<open>
  The effect of a call on the frame with a single device.
\<close>

theorem analyze_df_frame_effect_witness:
  "set [''device'', ''scan'', ''procName'', ''scan_proc_count''] \<subseteq> set (columns df_one_device) \<and>
   scan_records (fst (analyze_df toy_forest (15 / 100) df_one_device)) = scan_records df_one_device \<and>
   fst (analyze_df toy_forest (15 / 100) df_one_device) =
     set_difference_count (set_total_proc_count df_one_device)"
proof -
  have cols: "set [''device'', ''scan'', ''procName'', ''scan_proc_count''] \<subseteq> set (columns df_one_device)"
    by (simp add: ex_defs)
  from analyze_df_frame_effect [of toy_forest "15 / 100" df_one_device] cols
  show ?thesis by blast
qed

text \<open>
  Claim C8 as stated fails: after the call the caller's frame has two more columns,
  holding the counts and differences computed by lines 31 and 32.
\<close>

theorem analyze_df_mutates_frame_counterexample:
  "fst (analyze_df toy_forest (15 / 100) df_one_device) \<noteq> df_one_device \<and>
   columns df_one_device =
     [''Unnamed: 0'', ''device'', ''scan'', ''procName'', ''scan_proc_count'', ''timestamp''] \<and>
   columns (fst (analyze_df toy_forest (15 / 100) df_one_device)) =
     [''Unnamed: 0'', ''device'', ''scan'', ''procName'', ''scan_proc_count'', ''timestamp'',
      ''total_proc_count'', ''difference_count''] \<and>
   map total_proc_count (rows (fst (analyze_df toy_forest (15 / 100) df_one_device))) = [1, 1] \<and>
   map difference_count (rows (fst (analyze_df toy_forest (15 / 100) df_one_device))) = [0, - 1]"
  by (simp add: ex_defs pipe_defs)

section \<open>Errors of the forest\<close>

lemma analyze_df_ok:
  assumes "set input_columns \<subseteq> set (columns df)"
  shows "analyze_df f c df =
     (set_difference_count (set_total_proc_count df),
      case scored_df f c (feature_rows df) of
        Inl e \<Rightarrow> Inl e
      | Inr tbl \<Rightarrow> Inr (anomalous_devices tbl))"
  by (simp add: analyze_df_def scored_table_def preprocessing_ok [OF assms]
      feature_table_ok [OF assms])

lemma feature_table_no_index:
  assumes "''Unnamed: 0'' \<notin> set (columns df)"
  shows "\<exists>ls. feature_table df = Inl (KeyError ls)"
  using assms
  by (auto simp: feature_table_def preprocessing_def assign_difference_count_def
      data_no_proc_def missing_def set_total_proc_count_def set_total_proc_count_by_label_def
      set_difference_count_def setitem_columns_def
      split: list.splits)

text \<open>
  Claim C9, as amended. \<open>analyze_df\<close> does not check the contamination. It is handed to the
  forest as given, after the preprocessing has written to the frame; if \<open>fit_predict\<close>
  rejects it, the call fails with the forest's error and returns no set. A frame without
  the index column fails with a \<open>KeyError\<close> whatever the contamination is.
\<close>

theorem contamination_checked_by_forest_only:
  assumes "set input_columns \<subseteq> set (columns df)"
    and "fit_predict f c random_state (features (feature_rows df)) = Inl e"
  shows "analyze_df f c df =
           (set_difference_count (set_total_proc_count df), Inl (EnsembleError e)) \<and>
         (''Unnamed: 0'' \<notin> set (columns df') \<longrightarrow>
            (\<exists>ls. snd (analyze_df f c df') = Inl (KeyError ls)))"
proof (intro conjI impI)
  from assms(2) have "scored_df f c (feature_rows df) = Inl (EnsembleError e)"
    by (simp add: scored_df_def)
  then show "analyze_df f c df =
      (set_difference_count (set_total_proc_count df), Inl (EnsembleError e))"
    by (simp add: analyze_df_ok [OF assms(1)])
next
  assume "''Unnamed: 0'' \<notin> set (columns df')"
  then have "\<exists>ls. (feature_table df' :: 'a error + feature_row list) = Inl (KeyError ls)"
    by (rule feature_table_no_index)
  then show "\<exists>ls. snd (analyze_df f c df') = Inl (KeyError ls)"
    by (auto simp: analyze_df_def scored_table_def)
qed

text \<open>
  Contamination 2 on the frame with a single device: the stand-in forest rejects it.
\<close>

theorem contamination_checked_by_forest_only_witness:
  "set input_columns \<subseteq> set (columns df_one_device) \<and>
   fit_predict toy_forest 2 random_state (features (feature_rows df_one_device)) =
     Inl ''InvalidParameterError'' \<and>
   ''Unnamed: 0'' \<notin> set (columns df_no_index) \<and>
   analyze_df toy_forest 2 df_one_device =
     (set_difference_count (set_total_proc_count df_one_device),
      Inl (EnsembleError ''InvalidParameterError''))"
proof -
  have cols: "set input_columns \<subseteq> set (columns df_one_device)"
    by (simp add: ex_defs)
  have rej: "fit_predict toy_forest 2 random_state (features (feature_rows df_one_device)) =
     Inl ''InvalidParameterError''"
    by (simp add: toy_forest_def)
  have no: "''Unnamed: 0'' \<notin> set (columns df_no_index)"
    by (simp add: ex_defs)
  from contamination_checked_by_forest_only [OF cols rej, of df_no_index] cols rej no
  show ?thesis by (simp only: simp_thms)
qed

text \<open>
  Claim C9 as stated fails for the contamination 2. On the frame without index column
  the call fails with the \<open>KeyError\<close> of line 36, after lines 31 and 32 have added two
  columns. On the frame with a single device the forest rejects the value, again after
  the frame has been written to.
\<close>

theorem contamination_not_validated_counterexample:
  "\<not> ((0::real) < 2 \<and> (2::real) < 1) \<and>
   snd (analyze_df toy_forest 2 df_no_index) = Inl (KeyError [''Unnamed: 0'']) \<and>
   columns (fst (analyze_df toy_forest 2 df_no_index)) =
     [''device'', ''scan'', ''procName'', ''scan_proc_count'', ''timestamp'',
      ''total_proc_count'', ''difference_count''] \<and>
   snd (analyze_df toy_forest 2 df_one_device) = Inl (EnsembleError ''InvalidParameterError'') \<and>
   fst (analyze_df toy_forest 2 df_one_device) \<noteq> df_one_device"
  by (simp add: ex_defs pipe_defs)

lemma length_valid_features:
  "length (filter (\<lambda>(m, s). s \<noteq> None) (features fdf)) = length (valid_feature_rows fdf)"
  by (simp add: features_def valid_feature_rows_def filter_map o_def)

text \<open>
  Claim C6, as amended. For a frame in which fewer than two devices have a valid feature
  vector (none of its components missing) the forest is still called, on the matrix of
  all devices, of which fewer than two rows are valid. When \<open>fit_predict\<close> raises, the call
  fails with the forest's error. When the frame is not empty and the forest returns one
  label and one score per row, the call returns a set.
\<close>

theorem no_population_check:
  assumes "set input_columns \<subseteq> set (columns df)"
    and "length (valid_feature_rows (feature_rows df)) < 2"
  shows "length (filter (\<lambda>(m, s). s \<noteq> None) (features (feature_rows df))) < 2 \<and>
     scored_table f c df = scored_df f c (feature_rows df) \<and>
     (\<forall>labels scores.
        rows df \<noteq> [] \<and>
        fit_predict f c random_state (features (feature_rows df)) = Inr labels \<and>
        length labels = length (features (feature_rows df)) \<and>
        decision_function f c random_state (features (feature_rows df)) = Inr scores \<and>
        length scores = length (features (feature_rows df)) \<longrightarrow>
        (\<exists>S. snd (analyze_df f c df) = Inr S)) \<and>
     (\<forall>e. fit_predict f c random_state (features (feature_rows df)) = Inl e \<longrightarrow>
        snd (analyze_df f c df) = Inl (EnsembleError e))"
proof (intro conjI allI impI)
  from assms(2) show "length (filter (\<lambda>(m, s). s \<noteq> None) (features (feature_rows df))) < 2"
    by (simp only: length_valid_features)
next
  show "scored_table f c df = scored_df f c (feature_rows df)"
    by (simp add: scored_table_def feature_table_ok [OF assms(1)])
next
  fix labels scores
  assume h: "rows df \<noteq> [] \<and>
        fit_predict f c random_state (features (feature_rows df)) = Inr labels \<and>
        length labels = length (features (feature_rows df)) \<and>
        decision_function f c random_state (features (feature_rows df)) = Inr scores \<and>
        length scores = length (features (feature_rows df))"
  then have "fit_predict f c random_state (features (feature_rows df)) = Inr labels"
    "length labels = length (feature_rows df)"
    "decision_function f c random_state (features (feature_rows df)) = Inr scores"
    "length scores = length (feature_rows df)"
    by (simp_all add: features_def)
  from scored_df_ok [OF this] obtain tbl where "scored_df f c (feature_rows df) = Inr tbl"
    by blast
  then show "\<exists>S. snd (analyze_df f c df) = Inr S"
    by (simp add: analyze_df_ok [OF assms(1)])
next
  fix e
  assume "fit_predict f c random_state (features (feature_rows df)) = Inl e"
  then have "scored_df f c (feature_rows df) = Inl (EnsembleError e)"
    by (simp add: scored_df_def)
  then show "snd (analyze_df f c df) = Inl (EnsembleError e)"
    by (simp add: analyze_df_ok [OF assms(1)])
qed

lemma feature_rows_df_single_scans:
  "feature_rows df_single_scans =
     [\<lparr>fdevice = ''A'', mean_difference_count = 0, std_difference_count = None\<rparr>,
      \<lparr>fdevice = ''B'', mean_difference_count = - 1, std_difference_count = None\<rparr>,
      \<lparr>fdevice = ''C'', mean_difference_count = - 2, std_difference_count = None\<rparr>]"
  by (simp add: df_single_scans_def scan_record_def pipe_defs)

text \<open>
  Three devices with a single scan each: no feature vector is valid, and the call
  returns a set.
\<close>

theorem no_population_check_witness:
  "set input_columns \<subseteq> set (columns df_single_scans) \<and>
   length (valid_feature_rows (feature_rows df_single_scans)) < 2 \<and>
   rows df_single_scans \<noteq> [] \<and>
   fit_predict toy_forest (15 / 100) random_state (features (feature_rows df_single_scans))
     = Inr [1, 1, 1] \<and>
   decision_function toy_forest (15 / 100) random_state (features (feature_rows df_single_scans))
     = Inr [10, 9, 8] \<and>
   (\<exists>S. snd (analyze_df toy_forest (15 / 100) df_single_scans) = Inr S)"
proof -
  have cols: "set input_columns \<subseteq> set (columns df_single_scans)"
    by (simp add: df_single_scans_def)
  have few: "length (valid_feature_rows (feature_rows df_single_scans)) < 2"
    by (simp add: feature_rows_df_single_scans valid_feature_rows_def)
  have ne: "rows df_single_scans \<noteq> []"
    by (simp add: df_single_scans_def)
  have fp: "fit_predict toy_forest (15 / 100) random_state (features (feature_rows df_single_scans))
     = Inr [1, 1, 1]"
    by (simp add: feature_rows_df_single_scans features_def toy_forest_def)
  have dfun: "decision_function toy_forest (15 / 100) random_state
     (features (feature_rows df_single_scans)) = Inr [10, 9, 8]"
    by (simp add: feature_rows_df_single_scans features_def toy_forest_def)
  have len: "length [1, 1, 1 :: int] = length (features (feature_rows df_single_scans))"
    "length [10, 9, 8 :: real] = length (features (feature_rows df_single_scans))"
    by (simp_all add: feature_rows_df_single_scans features_def)
  from no_population_check [OF cols few, of toy_forest "15 / 100"] ne fp len(1) dfun len(2)
  have "\<exists>S. snd (analyze_df toy_forest (15 / 100) df_single_scans) = Inr S"
    by blast
  with cols few ne fp dfun show ?thesis by (simp only: simp_thms)
qed

text \<open>
  Claim C6 as stated fails: the frame with a single device has one valid feature vector,
  and the call returns the empty set when the forest labels the device normal; no error
  is raised.
\<close>

theorem one_device_counterexample:
  "device_ids (rows df_one_device) = [''A''] \<and>
   features (feature_rows df_one_device) = [(- 1 / 2, Some (sqrt (1 / 2)))] \<and>
   length (valid_feature_rows (feature_rows df_one_device)) = 1 \<and>
   snd (analyze_df toy_forest (15 / 100) df_one_device) = Inr {}"
proof -
  have cols: "set input_columns \<subseteq> set (columns df_one_device)"
    by (simp add: ex_defs)
  have 1: "device_ids (rows df_one_device) = [''A'']"
    by (simp add: ex_defs device_ids_def)
  have 2: "features (feature_rows df_one_device) = [(- 1 / 2, Some (sqrt (1 / 2)))]"
    by (simp add: feature_rows_df_one_device features_def)
  have 3: "length (valid_feature_rows (feature_rows df_one_device)) = 1"
    by (simp add: feature_rows_df_one_device valid_feature_rows_def)
  have 4: "snd (analyze_df toy_forest (15 / 100) df_one_device) = Inr {}"
    by (simp add: analyze_df_ok [OF cols] scored_df_def features_def feature_rows_df_one_device
        toy_forest_def anomalous_devices_def normalize_scores_def min_max_scaler_def
        data_min_def data_max_def)
  from 1 2 3 4 show ?thesis by (intro conjI)
qed

end
